theory Spec2Isabelle
  imports Main
begin

section \<open>The interpreter's values\<close>

text \<open>
  The functions of \<^verbatim>\<open>optimized_function.py\<close> are modelled over the values
  of the Python interpreter that they can tell apart. What the interpreter does and the
  repository does not fix is modelled as CPython does it on a 64-bit build:
  \<^item> an \<^verbatim>\<open>int\<close> is unbounded; a \<^verbatim>\<open>bool\<close> is an instance of \<^verbatim>\<open>int\<close>;
  \<^item> a \<^verbatim>\<open>float\<close> is an IEEE 754 binary64 number, and converting an integer that is
    too large for one raises \<^verbatim>\<open>OverflowError\<close>;
  \<^item> rendering an integer of more than 4300 decimal digits as a string raises
    \<^verbatim>\<open>ValueError\<close>: this is the default of \<^verbatim>\<open>sys.set_int_max_str_digits\<close>, which the
    repository does not change;
  \<^item> repeating a string by a count beyond \<^verbatim>\<open>sys.maxsize\<close>, or to a length beyond it,
    raises \<^verbatim>\<open>OverflowError\<close>; a repetition longer than the interpreter can allocate
    raises \<^verbatim>\<open>MemoryError\<close>. The number of characters that it can allocate for a new
    string is the parameter \<open>mem\<close> of the functions that may repeat a string; nothing else
    that the functions build is taken to exhaust the memory;
  \<^item> a class of the caller may derive from \<^verbatim>\<open>int\<close>, \<^verbatim>\<open>float\<close> or \<^verbatim>\<open>str\<close>: its
    instances pass the \<^verbatim>\<open>isinstance\<close> tests. Such a class may define its own
    \<^verbatim>\<open>__str__\<close> and \<^verbatim>\<open>__mul__\<close>; every other method is the one it inherits.
\<close>

subsection \<open>Exceptions and the log\<close>

text \<open>
  \<open>Exn a n m\<close> is an exception of the class named \<open>n\<close> whose \<^verbatim>\<open>str\<close> is the message
  \<open>m\<close>. The handlers of the program tell classes apart by what they derive from: \<open>a\<close> is
  the first of \<^verbatim>\<open>OverflowError\<close>, \<^verbatim>\<open>TypeError\<close>, \<^verbatim>\<open>ValueError\<close> and \<^verbatim>\<open>Exception\<close>
  that the class is or derives from, and \<^verbatim>\<open>BaseException\<close> where it derives from none
  (\<^verbatim>\<open>KeyboardInterrupt\<close>, \<^verbatim>\<open>SystemExit\<close>).
\<close>

datatype ancestor = TypeError | ValueError | OverflowError | Exception | BaseException

datatype exn = Exn ancestor string string

fun exn_ancestor :: "exn \<Rightarrow> ancestor" where
  "exn_ancestor (Exn a n m) = a"

fun exn_name :: "exn \<Rightarrow> string" where
  "exn_name (Exn a n m) = n"

fun exn_message :: "exn \<Rightarrow> string" where
  "exn_message (Exn a n m) = m"

text \<open>The exceptions that the interpreter and the program raise themselves.\<close>

abbreviation type_error :: "string \<Rightarrow> exn" where
  "type_error m \<equiv> Exn TypeError ''TypeError'' m"

abbreviation value_error :: "string \<Rightarrow> exn" where
  "value_error m \<equiv> Exn ValueError ''ValueError'' m"

abbreviation overflow_error :: "string \<Rightarrow> exn" where
  "overflow_error m \<equiv> Exn OverflowError ''OverflowError'' m"

abbreviation memory_error :: exn where
  "memory_error \<equiv> Exn Exception ''MemoryError'' ''''"

datatype level = WARNING | ERROR

type_synonym log_entry = "level \<times> string"

text \<open>A call returns its value or the exception it raised, and the lines it logged.\<close>

type_synonym 'a outcome = "(exn + 'a) \<times> log_entry list"

subsection \<open>Floats\<close>

text \<open>
  \<open>Finite s m e\<close> is the number \<open>(-1)\<^sup>s \<sqdot> m \<sqdot> 2\<^sup>e\<close> with \<open>m < 2\<^sup>5\<^sup>3\<close> and
  \<open>-1074 \<le> e \<le> 971\<close>, the mantissa filling its 53 bits unless \<open>e = -1074\<close>.
\<close>

datatype pyfloat = Finite bool nat int | Infinity bool | NaN

fun bit_length :: "nat \<Rightarrow> nat" where
  "bit_length n = (if n = 0 then 0 else Suc (bit_length (n div 2)))"

declare bit_length.simps [simp del]

definition finish :: "bool \<Rightarrow> nat \<Rightarrow> int \<Rightarrow> pyfloat" where
  "finish s m q =
     (if m = 2 ^ 53 then (if q + 1 > 971 then Infinity s else Finite s (2 ^ 52) (q + 1))
      else if q > 971 then Infinity s else Finite s m q)"

text \<open>\<open>round_near s m e\<close>: the float nearest to \<open>(-1)\<^sup>s \<sqdot> m \<sqdot> 2\<^sup>e\<close>, ties to even.\<close>

definition round_near :: "bool \<Rightarrow> nat \<Rightarrow> int \<Rightarrow> pyfloat" where
  "round_near s m e =
     (if m = 0 then Finite s 0 (- 1074)
      else
        let q = max (e + int (bit_length m) - 53) (- 1074) in
        if q \<le> e then finish s (m * 2 ^ nat (e - q)) q
        else
          let k = nat (q - e);
              hi = m div 2 ^ k;
              lo = m mod 2 ^ k;
              half = 2 ^ (k - 1)
          in finish s (if lo > half \<or> (lo = half \<and> odd hi) then hi + 1 else hi) q)"

text \<open>
  \<^verbatim>\<open>float(n)\<close> for an integer, as \<^verbatim>\<open>PyLong_AsDouble\<close>: it raises when \<open>n\<close> rounds to
  \<open>2\<^sup>1\<^sup>0\<^sup>2\<^sup>4\<close> or more, that is from \<open>2\<^sup>1\<^sup>0\<^sup>2\<^sup>4 - 2\<^sup>9\<^sup>7\<^sup>0\<close> on.
\<close>

definition float_limit :: int where
  "float_limit = 2 ^ 1024 - 2 ^ 970"

definition float_of_int :: "int \<Rightarrow> exn + pyfloat" where
  "float_of_int n =
     (if \<bar>n\<bar> \<ge> float_limit then Inl (overflow_error ''int too large to convert to float'')
      else Inr (round_near (n < 0) (nat \<bar>n\<bar>) 0))"

fun float_mul :: "pyfloat \<Rightarrow> pyfloat \<Rightarrow> pyfloat" where
  "float_mul NaN y = NaN"
| "float_mul x NaN = NaN"
| "float_mul (Infinity s) (Infinity t) = Infinity (s \<noteq> t)"
| "float_mul (Infinity s) (Finite t m e) = (if m = 0 then NaN else Infinity (s \<noteq> t))"
| "float_mul (Finite s m e) (Infinity t) = (if m = 0 then NaN else Infinity (s \<noteq> t))"
| "float_mul (Finite s m e) (Finite t n f) = round_near (s \<noteq> t) (m * n) (e + f)"

subsection \<open>Values\<close>

text \<open>
  A value whose class derives from none of \<^verbatim>\<open>int\<close>, \<^verbatim>\<open>float\<close> and \<^verbatim>\<open>str\<close> and is
  not \<^verbatim>\<open>NoneType\<close> (a list, a tuple, a dict, an instance of a class of the caller) is
  given by what the functions read from it: the name of its type, the rendering of its
  type in a formatted string, and what \<^verbatim>\<open>str\<close> does on it, which runs the
  \<^verbatim>\<open>__str__\<close> of its class.
\<close>

record pyobj =
  obj_type_name :: string
  obj_type_repr :: string
  obj_str :: "exn + string"

datatype pynum = PInt int | PBool bool | PFloat pyfloat

text \<open>
  \<open>Num\<close> and \<open>Str\<close> are the values of the exact types \<^verbatim>\<open>int\<close>, \<^verbatim>\<open>bool\<close>,
  \<^verbatim>\<open>float\<close> and \<^verbatim>\<open>str\<close>. \<open>SubNum n c\<close> and \<open>SubStr s c\<close> are the instances of a
  class that derives from \<^verbatim>\<open>int\<close> or \<^verbatim>\<open>float\<close>, or from \<^verbatim>\<open>str\<close>: \<open>n\<close> and \<open>s\<close>
  are the number and the string that the instance is, and \<open>c\<close> is its class, given by
  its name, by what \<^verbatim>\<open>str\<close> does on the instance, and by its \<^verbatim>\<open>__mul__\<close> where it
  defines one, a function of the right operand. (\<^verbatim>\<open>bool\<close> has no subclass.)
\<close>

datatype pyval = Num pynum | Str string | NoneVal | Obj pyobj
  | SubNum pynum pyclass | SubStr string pyclass
and pyclass =
  Subclass (sub_name: string) (sub_str: "exn + string")
    (sub_mul: "(int \<Rightarrow> exn + pyval) option")

text \<open>The decimal rendering of an integer.\<close>

fun str_nat :: "nat \<Rightarrow> string" where
  "str_nat n =
     (if n < 10 then [char_of (48 + n)] else str_nat (n div 10) @ [char_of (48 + n mod 10)])"

declare str_nat.simps [simp del]

definition str_int :: "int \<Rightarrow> string" where
  "str_int n = (if n < 0 then CHR ''-'' # str_nat (nat (- n)) else str_nat (nat n))"

text \<open>
  \<^verbatim>\<open>str(n)\<close> and \<^verbatim>\<open>f"{n}"\<close> for an \<^verbatim>\<open>int\<close>: an integer of more digits than the limit,
  that is of absolute value \<open>10\<^sup>4\<^sup>3\<^sup>0\<^sup>0\<close> or more, is not rendered.
\<close>

definition int_max_str_digits :: nat where
  "int_max_str_digits = 4300"

definition py_str_int :: "int \<Rightarrow> exn + string" where
  "py_str_int n =
     (if 10 ^ int_max_str_digits \<le> \<bar>n\<bar>
      then Inl (value_error (''Exceeds the limit (4300 digits) for integer string conversion;''
                  @ '' use sys.set_int_max_str_digits() to increase the limit''))
      else Inr (str_int n))"

text \<open>
  The rendering of a float is its shortest decimal numeral that reads back as the same
  float; it is kept as the float it renders, and has fewer than 100 characters.
\<close>

datatype preview = Text string | FloatText pyfloat

fun type_name :: "pyval \<Rightarrow> string" where
  "type_name (Num (PInt n)) = ''int''"
| "type_name (Num (PBool b)) = ''bool''"
| "type_name (Num (PFloat x)) = ''float''"
| "type_name (Str s) = ''str''"
| "type_name NoneVal = ''NoneType''"
| "type_name (Obj ob) = obj_type_name ob"
| "type_name (SubNum n c) = sub_name c"
| "type_name (SubStr s c) = sub_name c"

definition as_text :: "exn + string \<Rightarrow> exn + preview" where
  "as_text r = (case r of Inl e \<Rightarrow> Inl e | Inr s \<Rightarrow> Inr (Text s))"

fun py_str :: "pyval \<Rightarrow> exn + preview" where
  "py_str (Num (PInt n)) = as_text (py_str_int n)"
| "py_str (Num (PBool b)) = Inr (Text (if b then ''True'' else ''False''))"
| "py_str (Num (PFloat x)) = Inr (FloatText x)"
| "py_str (Str s) = Inr (Text s)"
| "py_str NoneVal = Inr (Text ''None'')"
| "py_str (Obj ob) = as_text (obj_str ob)"
| "py_str (SubNum n c) = as_text (sub_str c)"
| "py_str (SubStr s c) = as_text (sub_str c)"

text \<open>The slice \<^verbatim>\<open>s[:n]\<close>.\<close>

fun take_preview :: "nat \<Rightarrow> preview \<Rightarrow> preview" where
  "take_preview n (Text s) = Text (take n s)"
| "take_preview n (FloatText x) = FloatText x"

text \<open>\<^verbatim>\<open>sys.maxsize\<close>, the largest index.\<close>

definition maxsize :: int where
  "maxsize = 2 ^ 63 - 1"

text \<open>
  \<^verbatim>\<open>s * n\<close> for a string, where \<open>mem\<close> characters can be allocated: the count must fit
  an index; a count below 1 gives the empty string, the count 1 the string itself, with
  nothing allocated; otherwise the length of the repetition must fit an index, and the
  repetition is allocated.
\<close>

definition str_repeat :: "nat \<Rightarrow> string \<Rightarrow> int \<Rightarrow> exn + string" where
  "str_repeat mem s n =
     (if n > maxsize \<or> n < - maxsize - 1
        then Inl (overflow_error ''cannot fit 'int' into an index-sized integer'')
      else if n < 1 then Inr ''''
      else if n = 1 then Inr s
      else if int (length s) > maxsize div n
        then Inl (overflow_error ''repeated string is too long'')
      else if mem < length s * nat n then Inl memory_error
      else Inr (concat (replicate (nat n) s)))"

text \<open>
  \<^verbatim>\<open>v * n\<close> for a number and an integer: an integer product is exact (a \<^verbatim>\<open>bool\<close> counts
  as 0 or 1, and the product is an \<^verbatim>\<open>int\<close>); a float is multiplied by the integer
  converted to a float.
\<close>

fun num_mul :: "pynum \<Rightarrow> int \<Rightarrow> exn + pynum" where
  "num_mul (PInt v) n = Inr (PInt (v * n))"
| "num_mul (PBool b) n = Inr (PInt ((if b then 1 else 0) * n))"
| "num_mul (PFloat x) n =
     (case float_of_int n of Inl e \<Rightarrow> Inl e | Inr y \<Rightarrow> Inr (PFloat (float_mul x y)))"

fun is_int :: "pynum \<Rightarrow> bool" where
  "is_int (PInt v) = True"
| "is_int (PBool b) = True"
| "is_int (PFloat x) = False"

fun int_value :: "pynum \<Rightarrow> int" where
  "int_value (PInt v) = v"
| "int_value (PBool b) = (if b then 1 else 0)"
| "int_value (PFloat x) = 0"

text \<open>
  \<^verbatim>\<open>value * multiplier\<close> where \<open>value\<close> is of the class \<open>cls\<close> (\<open>None\<close> for an exact
  type): the \<^verbatim>\<open>__mul__\<close> of the class where it defines one, and the inherited product
  otherwise.
\<close>

definition times :: "pyclass option \<Rightarrow> exn + pyval \<Rightarrow> int \<Rightarrow> exn + pyval" where
  "times cls inherited multiplier =
     (case cls of
        None \<Rightarrow> inherited
      | Some c \<Rightarrow> (case sub_mul c of None \<Rightarrow> inherited | Some g \<Rightarrow> g multiplier))"

text \<open>
  For an instance of \<^verbatim>\<open>int\<close>, the integer that it is and what a formatted string
  renders it as; \<open>None\<close> for a value that is no instance of \<^verbatim>\<open>int\<close>.
\<close>

fun int_instance :: "pyval \<Rightarrow> (int \<times> (exn + string)) option" where
  "int_instance (Num (PInt n)) = Some (n, py_str_int n)"
| "int_instance (Num (PBool b)) =
     Some (if b then 1 else 0, Inr (if b then ''True'' else ''False''))"
| "int_instance (SubNum (PInt n) c) = Some (n, sub_str c)"
| "int_instance (SubNum (PBool b) c) = Some (if b then 1 else 0, sub_str c)"
| "int_instance v = None"

section \<open>The functions of optimized\_function.py\<close>

text \<open>
  The two private functions \<^verbatim>\<open>_process_numeric_value\<close> and
  \<^verbatim>\<open>_process_string_value\<close> are named without their leading underscore; they take
  the value as the number or the string that it is, with its class. Each function
  returns with its outcome the lines that it sent to the logger, in order.
\<close>

text \<open>
  The handler \<^verbatim>\<open>except OverflowError\<close> of \<^verbatim>\<open>_process_numeric_value\<close>, which logs
  and raises again; an exception of another class passes it unlogged.
\<close>

definition except_overflow :: "exn \<Rightarrow> pyval outcome" where
  "except_overflow e =
     (Inl e,
      if exn_ancestor e = OverflowError
      then [(ERROR, ''Overflow error in numeric processing: '' @ exn_message e)]
      else [])"

text \<open>
  The product, the test of its size and the formatted string of the warning are all in
  the \<^verbatim>\<open>try\<close> block: a formatted string that raises leaves the function before
  anything is logged.
\<close>

definition process_numeric_value :: "pynum \<Rightarrow> pyclass option \<Rightarrow> int \<Rightarrow> pyval outcome" where
  "process_numeric_value value cls multiplier =
     (case times cls (map_sum id Num (num_mul value multiplier)) multiplier of
        Inl e \<Rightarrow> except_overflow e
      | Inr result \<Rightarrow>
          (case int_instance result of
             None \<Rightarrow> (Inr result, [])
           | Some (r, text) \<Rightarrow>
               if is_int value \<and> \<bar>r\<bar> > 10 ^ 15 then
                 (case text of
                    Inl e \<Rightarrow> except_overflow e
                  | Inr s \<Rightarrow>
                      (Inr result,
                       [(WARNING, ''Result '' @ s
                           @ '' is very large, consider reviewing input values'')]))
               else (Inr result, [])))"

text \<open>
  The warning of \<^verbatim>\<open>_process_string_value\<close> is built, with the length rendered in
  it, before the string is repeated.
\<close>

definition process_string_value ::
  "nat \<Rightarrow> string \<Rightarrow> pyclass option \<Rightarrow> int \<Rightarrow> pyval outcome" where
  "process_string_value mem value cls multiplier =
     (if multiplier = 0 then (Inr (Str ''''), [])
      else
        (case (if int (length value) * multiplier > 10 ^ 6
               then (case py_str_int (int (length value) * multiplier) of
                       Inl e \<Rightarrow> Inl e
                     | Inr s \<Rightarrow>
                         Inr [(WARNING,
                               ''String multiplication would create a very large string (''
                                 @ s @ '' chars)'')])
               else Inr [])
         of
           Inl e \<Rightarrow> (Inl e, [])
         | Inr log \<Rightarrow>
             (times cls (map_sum id Str (str_repeat mem value multiplier)) multiplier, log)))"

abbreviation unsupported_type :: "string \<Rightarrow> exn" where
  "unsupported_type r \<equiv>
     type_error (''Unsupported type: '' @ r @ ''. Supported types: int, float, str'')"

definition optimized_example_function :: "nat \<Rightarrow> pyval \<Rightarrow> int \<Rightarrow> pyval outcome" where
  "optimized_example_function mem input_value multiplier =
     (if multiplier < 0 then (Inl (value_error ''Multiplier must be non-negative''), [])
      else case input_value of
        Num n \<Rightarrow> process_numeric_value n None multiplier
      | SubNum n c \<Rightarrow> process_numeric_value n (Some c) multiplier
      | Str s \<Rightarrow> process_string_value mem s None multiplier
      | SubStr s c \<Rightarrow> process_string_value mem s (Some c) multiplier
      | NoneVal \<Rightarrow> (Inl (unsupported_type ''<class 'NoneType'>''), [])
      | Obj ob \<Rightarrow> (Inl (unsupported_type (obj_type_repr ob)), []))"

text \<open>
  The dictionary that \<^verbatim>\<open>safe_example_function\<close> returns has the four keys
  \<^verbatim>\<open>'success'\<close>, \<^verbatim>\<open>'result'\<close>, \<^verbatim>\<open>'error'\<close> and \<^verbatim>\<open>'type_info'\<close>; \<^verbatim>\<open>'error'\<close> holds
  \<^verbatim>\<open>None\<close> or a dictionary with the keys \<^verbatim>\<open>'type'\<close> and \<^verbatim>\<open>'message'\<close>.
\<close>

record input_info =
  info_input_type :: string
  info_input_value :: preview
  info_multiplier :: int

record error_info =
  err_type :: string
  err_message :: string

record safe_result =
  success :: bool
  result :: pyval
  error :: "error_info option"
  type_info :: input_info

text \<open>
  The \<^verbatim>\<open>try\<close> statement of \<^verbatim>\<open>safe_example_function\<close>, as a function of the
  dictionary built before it and of what the call in its body did. The first handler
  takes the exceptions that derive from \<^verbatim>\<open>TypeError\<close>, \<^verbatim>\<open>ValueError\<close> or
  \<^verbatim>\<open>OverflowError\<close>, the second every other \<^verbatim>\<open>Exception\<close>; an exception that is no
  \<^verbatim>\<open>Exception\<close> passes through both.
\<close>

definition try_except :: "safe_result \<Rightarrow> pyval outcome \<Rightarrow> safe_result outcome" where
  "try_except result_info call =
     (case call of
        (Inr res, log) \<Rightarrow> (Inr (result_info\<lparr>success := True, result := res\<rparr>), log)
      | (Inl e, log) \<Rightarrow>
          (case exn_ancestor e of
             BaseException \<Rightarrow> (Inl e, log)
           | Exception \<Rightarrow>
               (Inr (result_info\<lparr>error := Some \<lparr>err_type = ''UnexpectedError'',
                       err_message = ''An unexpected error occurred''\<rparr>\<rparr>),
                log @ [(ERROR, ''Unexpected error in safe_example_function: ''
                                 @ exn_message e)])
           | _ \<Rightarrow>
               (Inr (result_info\<lparr>error := Some \<lparr>err_type = exn_name e,
                       err_message = exn_message e\<rparr>\<rparr>),
                log)))"

text \<open>
  The dictionary is built before the \<^verbatim>\<open>try\<close> statement, and building it calls
  \<^verbatim>\<open>str(input_value)\<close>.
\<close>

definition safe_example_function :: "nat \<Rightarrow> pyval \<Rightarrow> int \<Rightarrow> safe_result outcome" where
  "safe_example_function mem input_value multiplier =
     (case py_str input_value of
        Inl e \<Rightarrow> (Inl e, [])
      | Inr s \<Rightarrow>
          try_except
            \<lparr>success = False, result = NoneVal, error = None,
             type_info = \<lparr>info_input_type = type_name input_value,
                          info_input_value = take_preview 100 s,
                          info_multiplier = multiplier\<rparr>\<rparr>
            (optimized_example_function mem input_value multiplier))"

subsection \<open>The batch function and the lists it reads and writes\<close>

text \<open>
  Lists are mutable and live in a heap, a list of list objects addressed by position: a
  new list is appended, so its address is the length of the heap before. A list holds
  input values, or the results of a batch (\<^verbatim>\<open>None\<close> or a result dictionary in each
  place). The argument of \<^verbatim>\<open>batch_process_values\<close> is a reference to a list or a value
  that is no list. The three lists of pairs are local and never leave the function; the
  list allocated by the first \<^verbatim>\<open>results = []\<close> is dropped unread by the second
  assignment and is left out.
\<close>

datatype pylist = Values "pyval list" | Results "safe_result option list"

type_synonym heap = "pylist list"

datatype pyarg = ListAt nat | NotList pyval

definition values_at :: "heap \<Rightarrow> nat \<Rightarrow> pyval list option" where
  "values_at h a =
     (if a < length h then (case h ! a of Values xs \<Rightarrow> Some xs | Results rs \<Rightarrow> None)
      else None)"

definition results_at :: "heap \<Rightarrow> nat \<Rightarrow> safe_result option list option" where
  "results_at h a =
     (if a < length h then (case h ! a of Results rs \<Rightarrow> Some rs | Values xs \<Rightarrow> None)
      else None)"

text \<open>
  \<^verbatim>\<open>results[i] = x\<close> on the list at address \<open>r\<close>: an index out of range raises
  \<^verbatim>\<open>IndexError\<close>. The outcome is \<open>None\<close> where \<open>r\<close> is not the address of a list of
  results.
\<close>

definition setitem :: "heap \<Rightarrow> nat \<Rightarrow> nat \<Rightarrow> safe_result \<Rightarrow> (exn + heap) option" where
  "setitem h r i x =
     (case results_at h r of
        None \<Rightarrow> None
      | Some rs \<Rightarrow>
          Some (if i < length rs then Inr (h[r := Results (rs[i := Some x])])
                else Inl (Exn Exception ''IndexError''
                           ''list assignment index out of range'')))"

text \<open>The first loop: the pairs of index and value, appended to one of three lists.\<close>

type_synonym pairs = "(nat \<times> pyval) list"

fun group_values :: "pairs \<Rightarrow> pairs \<times> pairs \<times> pairs \<Rightarrow> pairs \<times> pairs \<times> pairs" where
  "group_values [] (numeric_values, string_values, other_values) =
     (numeric_values, string_values, other_values)"
| "group_values ((i, v) # rest) (numeric_values, string_values, other_values) =
     (case v of
        Num n \<Rightarrow> group_values rest (numeric_values @ [(i, v)], string_values, other_values)
      | SubNum n c \<Rightarrow>
          group_values rest (numeric_values @ [(i, v)], string_values, other_values)
      | Str s \<Rightarrow> group_values rest (numeric_values, string_values @ [(i, v)], other_values)
      | SubStr s c \<Rightarrow>
          group_values rest (numeric_values, string_values @ [(i, v)], other_values)
      | _ \<Rightarrow> group_values rest (numeric_values, string_values, other_values @ [(i, v)]))"

text \<open>
  Each of the three loops that follow: \<^verbatim>\<open>results[i] = safe_example_function(value,
  multiplier)\<close> for each pair in turn, on the list at address \<open>r\<close>. An exception ends
  the loop and leaves the heap as it is by then.
\<close>

fun process_group ::
  "nat \<Rightarrow> heap \<Rightarrow> nat \<Rightarrow> pairs \<Rightarrow> int \<Rightarrow>
     (heap \<times> (exn + unit) \<times> log_entry list) option" where
  "process_group mem h r [] multiplier = Some (h, Inr (), [])"
| "process_group mem h r ((i, v) # rest) multiplier =
     (case safe_example_function mem v multiplier of
        (Inl e, log) \<Rightarrow> Some (h, Inl e, log)
      | (Inr x, log) \<Rightarrow>
          (case setitem h r i x of
             None \<Rightarrow> None
           | Some (Inl e) \<Rightarrow> Some (h, Inl e, log)
           | Some (Inr h') \<Rightarrow>
               (case process_group mem h' r rest multiplier of
                  None \<Rightarrow> None
                | Some (h'', res, log') \<Rightarrow> Some (h'', res, log @ log'))))"

text \<open>
  The call returns the heap it leaves, the address of the new list of results or the
  exception raised, and the log. It is \<open>None\<close> where the reference is to no list of
  values in the heap.
\<close>


definition batch_process_values ::
  "nat \<Rightarrow> heap \<Rightarrow> pyarg \<Rightarrow> int \<Rightarrow> (heap \<times> (exn + nat) \<times> log_entry list) option" where
  "batch_process_values mem h arg multiplier =
     (case arg of
        NotList v \<Rightarrow> Some (h, Inl (type_error ''Values must be a list''), [])
      | ListAt a \<Rightarrow>
          (case values_at h a of
             None \<Rightarrow> None
           | Some vals \<Rightarrow>
               (case group_values (enumerate 0 vals) ([], [], []) of
                  (numeric_values, string_values, other_values) \<Rightarrow>
                    let results = length h;
                        h0 = h @ [Results (replicate (length vals) None)]
                    in (case process_group mem h0 results numeric_values multiplier of
                          None \<Rightarrow> None
                        | Some (h1, Inl e, log1) \<Rightarrow> Some (h1, Inl e, log1)
                        | Some (h1, Inr u1, log1) \<Rightarrow>
                        (case process_group mem h1 results string_values multiplier of
                          None \<Rightarrow> None
                        | Some (h2, Inl e, log2) \<Rightarrow> Some (h2, Inl e, log1 @ log2)
                        | Some (h2, Inr u2, log2) \<Rightarrow>
                        (case process_group mem h2 results other_values multiplier of
                          None \<Rightarrow> None
                        | Some (h3, Inl e, log3) \<Rightarrow> Some (h3, Inl e, log1 @ log2 @ log3)
                        | Some (h3, Inr u3, log3) \<Rightarrow>
                            Some (h3, Inr results, log1 @ log2 @ log3)))))))"

section \<open>The specification's notions\<close>

text \<open>
  The kinds of the data model, as the \<^verbatim>\<open>isinstance\<close> tests of the program assign them:
  a \<^verbatim>\<open>bool\<close> is an \<^verbatim>\<open>int\<close> to the interpreter, so its kind is Integer, and an
  instance of a subclass has the kind of the type it derives from.
\<close>

datatype kind = Integer | Float | TextKind | OtherKind

fun kind_of :: "pyval \<Rightarrow> kind" where
  "kind_of (Num (PFloat x)) = Float"
| "kind_of (Num n) = Integer"
| "kind_of (SubNum (PFloat x) c) = Float"
| "kind_of (SubNum n c) = Integer"
| "kind_of (Str s) = TextKind"
| "kind_of (SubStr s c) = TextKind"
| "kind_of v = OtherKind"

text \<open>The instances of a class of the caller that derives from a supported type.\<close>

fun subclass_instance :: "pyval \<Rightarrow> bool" where
  "subclass_instance (SubNum n c) = True"
| "subclass_instance (SubStr s c) = True"
| "subclass_instance v = False"

text \<open>
  The sequence types of the interpreter: a list, a string, and the objects of type
  \<^verbatim>\<open>tuple\<close>, \<^verbatim>\<open>range\<close>, \<^verbatim>\<open>bytes\<close> and \<^verbatim>\<open>bytearray\<close>.
\<close>

fun is_sequence :: "pyarg \<Rightarrow> bool" where
  "is_sequence (ListAt a) = True"
| "is_sequence (NotList (Str s)) = True"
| "is_sequence (NotList (SubStr s c)) = True"
| "is_sequence (NotList (Obj ob)) =
     (obj_type_name ob \<in> {''tuple'', ''range'', ''bytes'', ''bytearray''})"
| "is_sequence (NotList v) = False"

subsection \<open>Sample values\<close>

text \<open>
  An instance of \<^verbatim>\<open>class Bad\<close> whose \<^verbatim>\<open>__str__\<close> is
  \<^verbatim>\<open>raise RuntimeError("boom")\<close>, the tuple \<^verbatim>\<open>(1, 2)\<close>, the list \<^verbatim>\<open>[1, 2, 3]\<close>
  as a value, and the floats 1.5, 2.5, 3.5.
\<close>

definition bad_object :: pyval where
  "bad_object = Obj \<lparr>obj_type_name = ''Bad'', obj_type_repr = ''<class '__main__.Bad'>'',
     obj_str = Inl (Exn Exception ''RuntimeError'' ''boom'')\<rparr>"

definition tuple_1_2 :: pyval where
  "tuple_1_2 = Obj \<lparr>obj_type_name = ''tuple'', obj_type_repr = ''<class 'tuple'>'',
     obj_str = Inr ''(1, 2)''\<rparr>"

definition list_1_2_3 :: pyval where
  "list_1_2_3 = Obj \<lparr>obj_type_name = ''list'', obj_type_repr = ''<class 'list'>'',
     obj_str = Inr ''[1, 2, 3]''\<rparr>"

definition float_1_5 :: pyfloat where
  "float_1_5 = Finite False 6755399441055744 (- 52)"

definition float_2_5 :: pyfloat where
  "float_2_5 = Finite False 5629499534213120 (- 51)"

definition float_3_5 :: pyfloat where
  "float_3_5 = Finite False 7881299347898368 (- 51)"

text \<open>
  The instance \<^verbatim>\<open>S("a")\<close> of \<^verbatim>\<open>class S(str)\<close> whose \<^verbatim>\<open>__mul__\<close> is
  \<^verbatim>\<open>return None\<close>.
\<close>

definition none_product :: pyval where
  "none_product = SubStr ''a'' (Subclass ''S'' (Inr ''a'') (Some (\<lambda>n. Inr NoneVal)))"

text \<open>An interpreter that can allocate a string of up to \<open>2\<^sup>4\<^sup>0\<close> characters.\<close>

definition sample_mem :: nat where
  "sample_mem = 2 ^ 40"

subsection \<open>The three groups and the list of results, for the proofs\<close>

text \<open>The two tests of the first loop.\<close>

definition numeric :: "pyval \<Rightarrow> bool" where
  "numeric v = (case v of Num n \<Rightarrow> True | SubNum n c \<Rightarrow> True | _ \<Rightarrow> False)"

definition textual :: "pyval \<Rightarrow> bool" where
  "textual v = (case v of Str s \<Rightarrow> True | SubStr s c \<Rightarrow> True | _ \<Rightarrow> False)"

definition other :: "pyval \<Rightarrow> bool" where
  "other v = (\<not> numeric v \<and> \<not> textual v)"

text \<open>What one of the three loops does to the list of results it writes.\<close>

fun run_group ::
  "nat \<Rightarrow> safe_result option list \<Rightarrow> pairs \<Rightarrow> int \<Rightarrow> exn + safe_result option list" where
  "run_group mem rs [] f = Inr rs"
| "run_group mem rs ((i, v) # rest) f =
     (case fst (safe_example_function mem v f) of
        Inl e \<Rightarrow> Inl e
      | Inr x \<Rightarrow> run_group mem (rs[i := Some x]) rest f)"

section \<open>Arithmetic and list facts\<close>

lemma le_div_int:
  assumes "0 < (f::int)"
  shows "(a \<le> m div f) = (a * f \<le> m)"
proof
  assume "a \<le> m div f"
  then have "a * f \<le> (m div f) * f"
    using assms by (simp add: mult_right_mono)
  also have "\<dots> = m - m mod f"
    by (simp add: minus_mod_eq_div_mult)
  also have "\<dots> \<le> m"
    using assms by simp
  finally show "a * f \<le> m" .
next
  assume "a * f \<le> m"
  then have "(a * f) div f \<le> m div f"
    using assms by (rule zdiv_mono1)
  then show "a \<le> m div f"
    using assms by simp
qed

lemma div_less_int: "0 < (f::int) \<Longrightarrow> (m div f < a) = (m < a * f)"
  using le_div_int [of f a m] by auto

lemma length_concat_replicate: "length (concat (replicate k t)) = length t * k"
  by (induction k) auto

lemma limit_above_19: "(10::int) ^ 19 \<le> 10 ^ int_max_str_digits"
  unfolding int_max_str_digits_def by (rule power_increasing) simp_all

lemma small_below_limit: "\<bar>n\<bar> < 10 ^ 19 \<Longrightarrow> \<not> 10 ^ int_max_str_digits \<le> \<bar>n::int\<bar>"
  using limit_above_19 by linarith

lemma maxsize_below_limit: "\<bar>n\<bar> \<le> maxsize \<Longrightarrow> \<not> 10 ^ int_max_str_digits \<le> \<bar>n\<bar>"
  using small_below_limit [of n] by (simp add: maxsize_def)

lemma py_str_int_small: "\<bar>n\<bar> < 10 ^ 19 \<Longrightarrow> py_str_int n = Inr (str_int n)"
  using small_below_limit [of n] by (simp add: py_str_int_def)

lemma py_str_int_exn:
  "py_str_int n = Inl e \<Longrightarrow>
     e = value_error (''Exceeds the limit (4300 digits) for integer string conversion;''
           @ '' use sys.set_int_max_str_digits() to increase the limit'')"
  by (simp add: py_str_int_def split: if_splits)

section \<open>The transforming function\<close>

lemma num_mul_exn:
  "num_mul n f = Inl e \<Longrightarrow> e = overflow_error ''int too large to convert to float''"
  by (cases n) (auto simp: float_of_int_def split: if_splits sum.splits)

lemma str_repeat_exn:
  "str_repeat mem s f = Inl e \<Longrightarrow>
     e = overflow_error ''cannot fit 'int' into an index-sized integer''
     \<or> e = overflow_error ''repeated string is too long'' \<or> e = memory_error"
  by (auto simp: str_repeat_def split: if_splits)

text \<open>
  C3, as the code has it. For a factor \<open>f \<ge> 0\<close>: on a value of the exact type
  \<^verbatim>\<open>int\<close> or \<^verbatim>\<open>bool\<close> (a \<^verbatim>\<open>bool\<close> counting as 0 or 1) whose product with \<open>f\<close> has
  at most 4300 digits, the function returns the exact product and logs one warning
  exactly when the product exceeds \<open>10\<^sup>1\<^sup>5\<close> in absolute value; on a value of the exact
  type \<^verbatim>\<open>float\<close> it returns the float product of the value and the factor converted to
  a float, and logs nothing, when the factor is below \<open>2\<^sup>1\<^sup>0\<^sup>2\<^sup>4 - 2\<^sup>9\<^sup>7\<^sup>0\<close>; from that
  factor on it logs an error and fails with \<^verbatim>\<open>OverflowError\<close>.
\<close>

theorem transform_numeric:
  "0 \<le> f \<Longrightarrow>
     (is_int n \<and> \<bar>int_value n * f\<bar> < 10 ^ int_max_str_digits \<longrightarrow>
        optimized_example_function mem (Num n) f =
          (Inr (Num (PInt (int_value n * f))),
           if \<bar>int_value n * f\<bar> > 10 ^ 15
           then [(WARNING, ''Result '' @ str_int (int_value n * f)
                    @ '' is very large, consider reviewing input values'')]
           else []))
     \<and> (\<forall>x. n = PFloat x \<longrightarrow>
          (f < float_limit \<longrightarrow>
             (\<exists>y. float_of_int f = Inr y \<and>
                  optimized_example_function mem (Num n) f =
                    (Inr (Num (PFloat (float_mul x y))), [])))
          \<and> (float_limit \<le> f \<longrightarrow>
             optimized_example_function mem (Num n) f =
               (Inl (overflow_error ''int too large to convert to float''),
                [(ERROR, ''Overflow error in numeric processing: ''
                           @ ''int too large to convert to float'')])))"
  by (cases n)
    (auto simp: optimized_example_function_def process_numeric_value_def times_def
      float_of_int_def py_str_int_def except_overflow_def)

theorem transform_numeric_witness:
  "(0::int) \<le> 4 \<and> is_int (PInt 5) \<and> \<bar>int_value (PInt 5) * 4\<bar> < 10 ^ int_max_str_digits
   \<and> optimized_example_function sample_mem (Num (PInt 5)) 4 = (Inr (Num (PInt 20)), [])
   \<and> (0::int) \<le> 3 \<and> \<bar>int_value (PInt (10 ^ 15)) * 3\<bar> < 10 ^ int_max_str_digits
   \<and> optimized_example_function sample_mem (Num (PInt (10 ^ 15))) 3
       = (Inr (Num (PInt (3 * 10 ^ 15))),
          [(WARNING, ''Result 3000000000000000 is very large, consider reviewing input values'')])
   \<and> optimized_example_function sample_mem (Num (PFloat float_3_5)) 4
       = (Inr (Num (PFloat (Finite False 7881299347898368 (- 49)))), [])"
proof -
  have f: "float_of_int 4 = Inr (Finite False 4503599627370496 (- 50))"
    by (simp add: float_of_int_def float_limit_def round_near_def finish_def Let_def
        bit_length.simps)
  have m: "float_mul float_3_5 (Finite False 4503599627370496 (- 50))
             = Finite False 7881299347898368 (- 49)"
    by (simp add: float_3_5_def round_near_def finish_def Let_def bit_length.simps)
  have l: "(4::int) < float_limit"
    by (simp add: float_limit_def)
  have a: "\<bar>int_value (PInt 5) * 4\<bar> < 10 ^ int_max_str_digits"
    using small_below_limit [of "int_value (PInt 5) * 4"] by simp
  have b: "\<bar>int_value (PInt (10 ^ 15)) * 3\<bar> < 10 ^ int_max_str_digits"
    using small_below_limit [of "int_value (PInt (10 ^ 15)) * 3"] by simp
  have s: "str_int (int_value (PInt (10 ^ 15)) * 3) = ''3000000000000000''"
    by (simp add: str_int_def str_nat.simps) code_simp
  show ?thesis
    using transform_numeric [of 4 "PInt 5" sample_mem]
      transform_numeric [of 3 "PInt (10 ^ 15)" sample_mem]
      transform_numeric [of 4 "PFloat float_3_5" sample_mem] f m l a b s
    by simp
qed

text \<open>
  C3 as stated fails on a float: with the factor \<open>2\<^sup>1\<^sup>0\<^sup>2\<^sup>4\<close>, which is not negative,
  the function called on 1.5 does not return the product but raises
  \<^verbatim>\<open>OverflowError\<close>.
\<close>

theorem transform_float_counterexample:
  "(0::int) \<le> 2 ^ 1024
   \<and> fst (optimized_example_function sample_mem (Num (PFloat float_1_5)) (2 ^ 1024))
       = Inl (overflow_error ''int too large to convert to float'')"
  by (simp add: optimized_example_function_def process_numeric_value_def times_def
      float_of_int_def float_limit_def except_overflow_def)

text \<open>
  C4, as the code has it. For a text \<open>t\<close> of the exact type \<^verbatim>\<open>str\<close> and a factor
  \<open>f \<ge> 0\<close> that is at most \<^verbatim>\<open>sys.maxsize\<close>, with \<open>len(t) * f\<close> at most
  \<^verbatim>\<open>sys.maxsize\<close> and, when \<open>f > 1\<close>, at most the number of characters that can be
  allocated, the function returns \<open>t\<close> concatenated \<open>f\<close> times, of length
  \<open>len(t) * f\<close>, untruncated, and logs one warning exactly when that length exceeds
  \<open>10\<^sup>6\<close>; the factor 0 gives the empty text. Where \<open>len(t) * f\<close> has at most 4300
  digits, a factor beyond \<^verbatim>\<open>sys.maxsize\<close>, or a length beyond it, fails with
  \<^verbatim>\<open>OverflowError\<close>; a length within \<^verbatim>\<open>sys.maxsize\<close> that cannot be allocated
  fails with \<^verbatim>\<open>MemoryError\<close>.
\<close>

theorem transform_text:
  "0 \<le> f \<Longrightarrow>
     (f \<le> maxsize \<and> int (length t) * f \<le> maxsize \<and> (1 < f \<longrightarrow> length t * nat f \<le> mem) \<longrightarrow>
        optimized_example_function mem (Str t) f =
          (Inr (Str (concat (replicate (nat f) t))),
           if int (length t) * f > 10 ^ 6
           then [(WARNING, ''String multiplication would create a very large string (''
                    @ str_int (int (length t) * f) @ '' chars)'')]
           else [])
        \<and> length (concat (replicate (nat f) t)) = length t * nat f)
     \<and> optimized_example_function mem (Str t) 0 = (Inr (Str []), [])
     \<and> (maxsize < f \<and> int (length t) * f < 10 ^ int_max_str_digits \<longrightarrow>
          fst (optimized_example_function mem (Str t) f) =
            Inl (overflow_error ''cannot fit 'int' into an index-sized integer''))
     \<and> (1 < f \<and> f \<le> maxsize \<and> maxsize < int (length t) * f
          \<and> int (length t) * f < 10 ^ int_max_str_digits \<longrightarrow>
          fst (optimized_example_function mem (Str t) f) =
            Inl (overflow_error ''repeated string is too long''))
     \<and> (1 < f \<and> f \<le> maxsize \<and> int (length t) * f \<le> maxsize \<and> mem < length t * nat f \<longrightarrow>
          fst (optimized_example_function mem (Str t) f) = Inl memory_error)"
proof -
  assume f: "0 \<le> f"
  have ab: "\<bar>int (length t) * f\<bar> = int (length t) * f"
    using f by simp
  have lim: "\<not> 10 ^ int_max_str_digits \<le> int (length t) * f"
    if "int (length t) * f \<le> maxsize"
    using that maxsize_below_limit [of "int (length t) * f"] ab by simp
  consider "f = 0" | "f = 1" | "1 < f" using f by linarith
  then show ?thesis
  proof cases
    case 1
    then show ?thesis
      by (simp add: optimized_example_function_def process_string_value_def maxsize_def)
  next
    case 2
    then show ?thesis
      using lim
      by (auto simp: optimized_example_function_def process_string_value_def str_repeat_def
          times_def py_str_int_def maxsize_def)
  next
    case 3
    then have pos: "0 < f" by simp
    show ?thesis
      using 3 lim ab
      by (auto simp: optimized_example_function_def process_string_value_def str_repeat_def
          times_def py_str_int_def div_less_int [OF pos] length_concat_replicate mult.commute)
  qed
qed

theorem transform_text_witness:
  "(0::int) \<le> 3 \<and> (3::int) \<le> maxsize \<and> int (length ''Hello'') * 3 \<le> maxsize
   \<and> length ''Hello'' * nat 3 \<le> sample_mem
   \<and> optimized_example_function sample_mem (Str ''Hello'') 3
       = (Inr (Str ''HelloHelloHello''), [])
   \<and> length ''HelloHelloHello'' = length ''Hello'' * 3
   \<and> (1::int) < 2 ^ 62 \<and> (2::int) ^ 62 \<le> maxsize \<and> int (length ''a'') * 2 ^ 62 \<le> maxsize
   \<and> sample_mem < length ''a'' * nat (2 ^ 62)
   \<and> fst (optimized_example_function sample_mem (Str ''a'') (2 ^ 62)) = Inl memory_error"
proof -
  have r: "concat (replicate (nat 3) ''Hello'') = ''HelloHelloHello''"
    by (simp add: numeral_3_eq_3)
  show ?thesis
    using transform_text [of 3 "''Hello''" sample_mem]
      transform_text [of "2 ^ 62" "''a''" sample_mem] r
    by (simp add: maxsize_def sample_mem_def)
qed

text \<open>
  C4 as stated fails on a factor beyond \<^verbatim>\<open>sys.maxsize\<close>: with the factor \<open>10\<^sup>3\<^sup>0\<close>,
  which is not negative, the function called on the text \<^verbatim>\<open>"a"\<close> does not return the
  repetition but raises \<^verbatim>\<open>OverflowError\<close>.
\<close>

theorem transform_text_counterexample:
  "(0::int) \<le> 10 ^ 30
   \<and> fst (optimized_example_function sample_mem (Str ''a'') (10 ^ 30))
       = Inl (overflow_error ''cannot fit 'int' into an index-sized integer'')"
proof -
  have "int (length ''a'') * 10 ^ 30 < 10 ^ int_max_str_digits"
  proof -
    have "(10::int) ^ 30 < 10 ^ int_max_str_digits"
      unfolding int_max_str_digits_def by (rule power_strict_increasing) simp_all
    then show ?thesis by simp
  qed
  then have "py_str_int (10 ^ 30) = Inr (str_int (10 ^ 30))"
    by (simp add: py_str_int_def)
  then show ?thesis
    by (simp add: optimized_example_function_def process_string_value_def str_repeat_def
        times_def maxsize_def)
qed

text \<open>
  C5, as the code has it. A negative factor fails with \<^verbatim>\<open>ValueError\<close> (the
  specification's InvalidFactor) whatever the value is, the factor being checked first.
  For a factor \<open>f \<ge> 0\<close> the function fails with the \<^verbatim>\<open>TypeError\<close> of an unsupported
  type on every value whose kind is none of Integer, Float and Text, and on a value of
  the exact type \<^verbatim>\<open>int\<close>, \<^verbatim>\<open>bool\<close>, \<^verbatim>\<open>float\<close> or \<^verbatim>\<open>str\<close> it fails with no
  \<^verbatim>\<open>TypeError\<close>. Such a value does fail for some \<open>f \<ge> 0\<close>: where the number that a
  warning renders has at most 4300 digits, a number fails only with the
  \<^verbatim>\<open>OverflowError\<close> of a factor too large for a float, and a text only with the
  \<^verbatim>\<open>OverflowError\<close> of a count or a length beyond \<^verbatim>\<open>sys.maxsize\<close> or with
  \<^verbatim>\<open>MemoryError\<close>.
\<close>

theorem transform_failures:
  "(f < 0 \<longrightarrow>
      optimized_example_function mem v f
        = (Inl (value_error ''Multiplier must be non-negative''), []))
   \<and> (0 \<le> f \<and> kind_of v = OtherKind \<longrightarrow>
        (\<exists>r. optimized_example_function mem v f = (Inl (unsupported_type r), [])))
   \<and> (0 \<le> f \<and> kind_of v \<noteq> OtherKind \<and> \<not> subclass_instance v \<longrightarrow>
        (\<forall>e. fst (optimized_example_function mem v f) = Inl e \<longrightarrow>
           exn_ancestor e \<noteq> TypeError))
   \<and> (\<forall>n e. v = Num n \<and> 0 \<le> f \<and> \<bar>int_value n * f\<bar> < 10 ^ int_max_str_digits
          \<and> fst (optimized_example_function mem v f) = Inl e \<longrightarrow>
        e = overflow_error ''int too large to convert to float'')
   \<and> (\<forall>s e. v = Str s \<and> 0 \<le> f \<and> int (length s) * f < 10 ^ int_max_str_digits
          \<and> fst (optimized_example_function mem v f) = Inl e \<longrightarrow>
        e = overflow_error ''cannot fit 'int' into an index-sized integer''
        \<or> e = overflow_error ''repeated string is too long''
        \<or> e = memory_error)"
proof (cases v)
  case (Num n)
  then show ?thesis
    by (cases n)
      (auto simp: optimized_example_function_def process_numeric_value_def times_def
        float_of_int_def py_str_int_def except_overflow_def split: if_splits)
next
  case (Str s)
  have rep: "e = overflow_error ''cannot fit 'int' into an index-sized integer''
      \<or> e = overflow_error ''repeated string is too long'' \<or> e = memory_error"
    if "map_sum id Str (str_repeat mem s f) = Inl e" for e
  proof -
    have "str_repeat mem s f = Inl e"
      using that by (cases "str_repeat mem s f") simp_all
    then show ?thesis by (rule str_repeat_exn)
  qed
  have fails: "exn_ancestor e \<noteq> TypeError"
    if "fst (optimized_example_function mem (Str s) f) = Inl e" and "0 \<le> f" for e
    using that rep [of e]
    by (auto simp: optimized_example_function_def process_string_value_def times_def
        py_str_int_def split: if_splits)
  have only: "e = overflow_error ''cannot fit 'int' into an index-sized integer''
      \<or> e = overflow_error ''repeated string is too long'' \<or> e = memory_error"
    if "fst (optimized_example_function mem (Str s) f) = Inl e" and "0 \<le> f"
      and "int (length s) * f < 10 ^ int_max_str_digits" for e
    using that rep [of e]
    by (auto simp: optimized_example_function_def process_string_value_def times_def
        py_str_int_def split: if_splits)
  show ?thesis
    unfolding Str using fails only
    by (simp add: optimized_example_function_def)
next
  case NoneVal
  then show ?thesis by (simp add: optimized_example_function_def)
next
  case (Obj ob)
  then show ?thesis by (simp add: optimized_example_function_def)
next
  case (SubNum n c)
  then show ?thesis by (cases n) (simp_all add: optimized_example_function_def)
next
  case (SubStr s c)
  then show ?thesis by (simp add: optimized_example_function_def)
qed

theorem transform_failures_witness:
  "(- 1::int) < 0
   \<and> optimized_example_function sample_mem (Num (PInt 10)) (- 1)
       = (Inl (value_error ''Multiplier must be non-negative''), [])
   \<and> optimized_example_function sample_mem list_1_2_3 (- 1)
       = (Inl (value_error ''Multiplier must be non-negative''), [])
   \<and> (0::int) \<le> 2 \<and> kind_of list_1_2_3 = OtherKind
   \<and> (\<exists>r. optimized_example_function sample_mem list_1_2_3 2
            = (Inl (unsupported_type r), []))
   \<and> kind_of (Str ''ab'') \<noteq> OtherKind \<and> \<not> subclass_instance (Str ''ab'')
   \<and> (0::int) \<le> 2 ^ 62 \<and> int (length ''ab'') * 2 ^ 62 < 10 ^ int_max_str_digits
   \<and> fst (optimized_example_function sample_mem (Str ''ab'') (2 ^ 62))
       = Inl (overflow_error ''repeated string is too long'')
   \<and> exn_ancestor (overflow_error ''repeated string is too long'') \<noteq> TypeError"
proof -
  have k: "kind_of list_1_2_3 = OtherKind"
    by (simp add: list_1_2_3_def)
  have d: "int (length ''ab'') * 2 ^ 62 < 10 ^ int_max_str_digits"
    using small_below_limit [of "int (length ''ab'') * 2 ^ 62"] by simp
  have p: "py_str_int (2 * 2 ^ 62) = Inr (str_int (2 * 2 ^ 62))"
    by (rule py_str_int_small) simp
  have t: "fst (optimized_example_function sample_mem (Str ''ab'') (2 ^ 62))
       = Inl (overflow_error ''repeated string is too long'')"
    using p
    by (simp add: optimized_example_function_def process_string_value_def str_repeat_def
        times_def maxsize_def)
  have c1: "optimized_example_function sample_mem (Num (PInt 10)) (- 1)
       = (Inl (value_error ''Multiplier must be non-negative''), [])"
    using transform_failures [of "- 1" sample_mem "Num (PInt 10)"] by simp
  have c2: "optimized_example_function sample_mem list_1_2_3 (- 1)
       = (Inl (value_error ''Multiplier must be non-negative''), [])"
    using transform_failures [of "- 1" sample_mem list_1_2_3] by simp
  have c3: "\<exists>r. optimized_example_function sample_mem list_1_2_3 2
            = (Inl (unsupported_type r), [])"
    using transform_failures [of 2 sample_mem list_1_2_3] k by simp
  have c4: "exn_ancestor (overflow_error ''repeated string is too long'') \<noteq> TypeError"
    using transform_failures [of "2 ^ 62" sample_mem "Str ''ab''"] d t by simp
  show ?thesis
    by (intro conjI) (use c1 c2 c3 c4 k d t in simp_all)
qed

text \<open>
  C5 as stated fails on a text and a factor that is not negative: the function called
  on the text \<^verbatim>\<open>"a"\<close>, of the kind Text, with the factor \<open>2\<^sup>6\<^sup>3\<close> fails, and with
  neither \<^verbatim>\<open>ValueError\<close> nor \<^verbatim>\<open>TypeError\<close> but with \<^verbatim>\<open>OverflowError\<close>.
\<close>

theorem transform_overflow_counterexample:
  "(0::int) \<le> 2 ^ 63 \<and> kind_of (Str ''a'') = TextKind
   \<and> fst (optimized_example_function sample_mem (Str ''a'') (2 ^ 63))
       = Inl (overflow_error ''cannot fit 'int' into an index-sized integer'')
   \<and> OverflowError \<noteq> ValueError \<and> OverflowError \<noteq> TypeError"
proof -
  have "py_str_int (2 ^ 63) = Inr (str_int (2 ^ 63))"
    by (rule py_str_int_small) simp
  then show ?thesis
    by (simp add: optimized_example_function_def process_string_value_def str_repeat_def
        times_def maxsize_def)
qed

lemma transform_not_none:
  assumes "\<not> subclass_instance v" and "fst (optimized_example_function mem v f) = Inr y"
  shows "y \<noteq> NoneVal"
proof (cases v)
  case (Num n)
  then show ?thesis
    using assms(2)
    by (cases n)
      (auto simp: optimized_example_function_def process_numeric_value_def times_def
        except_overflow_def split: if_splits sum.splits)
next
  case (Str s)
  have "r \<noteq> NoneVal" if "map_sum id Str (str_repeat mem s f) = Inr r" for r
    using that by (cases "str_repeat mem s f") auto
  then show ?thesis
    using assms(2) Str
    by (auto simp: optimized_example_function_def process_string_value_def times_def
        split: if_splits sum.splits)
next
  case NoneVal
  then show ?thesis
    using assms(2) by (simp add: optimized_example_function_def split: if_splits)
next
  case (Obj ob)
  then show ?thesis
    using assms(2) by (simp add: optimized_example_function_def split: if_splits)
next
  case (SubNum n c)
  then show ?thesis using assms(1) by simp
next
  case (SubStr s c)
  then show ?thesis using assms(1) by simp
qed

section \<open>The safe wrapper\<close>

lemma safe_raises:
  "py_str v = Inl e \<Longrightarrow> safe_example_function mem v f = (Inl e, [])"
  by (simp add: safe_example_function_def)

lemma safe_success:
  assumes "py_str v = Inr s" and "optimized_example_function mem v f = (Inr y, log)"
  shows "safe_example_function mem v f =
    (Inr \<lparr>success = True, result = y, error = None,
          type_info = \<lparr>info_input_type = type_name v,
                       info_input_value = take_preview 100 s,
                       info_multiplier = f\<rparr>\<rparr>, log)"
  using assms by (simp add: safe_example_function_def try_except_def)

lemma safe_reported:
  assumes "py_str v = Inr s" and "optimized_example_function mem v f = (Inl e, log)"
    and "exn_ancestor e \<in> {TypeError, ValueError, OverflowError}"
  shows "safe_example_function mem v f =
    (Inr \<lparr>success = False, result = NoneVal,
          error = Some \<lparr>err_type = exn_name e, err_message = exn_message e\<rparr>,
          type_info = \<lparr>info_input_type = type_name v,
                       info_input_value = take_preview 100 s,
                       info_multiplier = f\<rparr>\<rparr>, log)"
  using assms by (auto simp: safe_example_function_def try_except_def)

lemma safe_unexpected:
  assumes "py_str v = Inr s" and "optimized_example_function mem v f = (Inl e, log)"
    and "exn_ancestor e = Exception"
  shows "safe_example_function mem v f =
    (Inr \<lparr>success = False, result = NoneVal,
          error = Some \<lparr>err_type = ''UnexpectedError'',
                        err_message = ''An unexpected error occurred''\<rparr>,
          type_info = \<lparr>info_input_type = type_name v,
                       info_input_value = take_preview 100 s,
                       info_multiplier = f\<rparr>\<rparr>,
     log @ [(ERROR, ''Unexpected error in safe_example_function: '' @ exn_message e)])"
  using assms by (simp add: safe_example_function_def try_except_def)

lemma safe_passes:
  assumes "py_str v = Inr s" and "optimized_example_function mem v f = (Inl e, log)"
    and "exn_ancestor e = BaseException"
  shows "safe_example_function mem v f = (Inl e, log)"
  using assms by (simp add: safe_example_function_def try_except_def)

lemma ancestor_cases:
  "exn_ancestor e \<in> {TypeError, ValueError, OverflowError}
   \<or> exn_ancestor e = Exception \<or> exn_ancestor e = BaseException"
  by (cases "exn_ancestor e") simp_all

text \<open>
  What a returned result says of the call it wraps: \<^verbatim>\<open>success\<close> is true exactly when
  the transforming function returned, and then \<^verbatim>\<open>result\<close> is what it returned.
\<close>

lemma safe_returned_success:
  assumes "fst (safe_example_function mem v f) = Inr r"
  shows "(success r \<longleftrightarrow> (\<exists>y. fst (optimized_example_function mem v f) = Inr y))
    \<and> (\<forall>y. fst (optimized_example_function mem v f) = Inr y \<longrightarrow> result r = y)"
proof (cases "py_str v")
  case (Inl e)
  then show ?thesis
    using assms safe_raises [of v e mem f] by simp
next
  case (Inr s)
  obtain out log where call: "optimized_example_function mem v f = (out, log)"
    by (cases "optimized_example_function mem v f")
  show ?thesis
  proof (cases out)
    case (Inr y)
    then show ?thesis
      using assms \<open>py_str v = Inr s\<close> call safe_success [of v s mem f y log] by auto
  next
    case (Inl e)
    then show ?thesis
      using assms Inr call ancestor_cases [of e] safe_reported [of v s mem f e log]
        safe_unexpected [of v s mem f e log] safe_passes [of v s mem f e log]
      by auto
  qed
qed

text \<open>
  C1 fails on the code: the dictionary with the preview \<^verbatim>\<open>str(input_value)[:100]\<close> is
  built before the \<^verbatim>\<open>try\<close> statement, so a failure of \<^verbatim>\<open>str\<close> on the input leaves
  the function as an exception. On an object whose \<^verbatim>\<open>__str__\<close> raises
  \<^verbatim>\<open>RuntimeError("boom")\<close>, the call with the factor 2 raises that exception and returns
  no result.
\<close>

theorem safe_propagates_str_failure:
  "safe_example_function mem bad_object 2 = (Inl (Exn Exception ''RuntimeError'' ''boom''), [])"
  by (simp add: safe_example_function_def bad_object_def as_text_def)

text \<open>
  C6 fails on the code, by the defect of C1: on the integer \<open>10\<^sup>4\<^sup>3\<^sup>0\<^sup>0\<close>, of 4301
  digits, and the factor 0 the transforming function returns 0, and the wrapper returns
  no result: the \<^verbatim>\<open>str(input_value)\<close> of the preview, before the \<^verbatim>\<open>try\<close>
  statement, raises \<^verbatim>\<open>ValueError\<close>.
\<close>

theorem safe_raises_on_long_integer:
  "fst (optimized_example_function mem (Num (PInt (10 ^ int_max_str_digits))) 0)
     = Inr (Num (PInt 0))
   \<and> safe_example_function mem (Num (PInt (10 ^ int_max_str_digits))) 0
       = (Inl (value_error (''Exceeds the limit (4300 digits) for integer string conversion;''
                 @ '' use sys.set_int_max_str_digits() to increase the limit'')), [])"
  by (simp add: optimized_example_function_def process_numeric_value_def times_def
      safe_example_function_def py_str_int_def as_text_def)

text \<open>
  C7, as the code has it. Every result that the wrapper returns has \<^verbatim>\<open>success\<close> true
  exactly when its \<^verbatim>\<open>error\<close> is \<^verbatim>\<open>None\<close>, and a result with an \<^verbatim>\<open>error\<close> has
  the \<^verbatim>\<open>result\<close> \<^verbatim>\<open>None\<close>. For an input that is no instance of a subclass of
  \<^verbatim>\<open>int\<close>, \<^verbatim>\<open>float\<close> or \<^verbatim>\<open>str\<close>, the \<^verbatim>\<open>error\<close> is \<^verbatim>\<open>None\<close> exactly when the
  \<^verbatim>\<open>result\<close> is not \<^verbatim>\<open>None\<close>.
\<close>

theorem safe_result_invariant:
  "fst (safe_example_function mem v f) = Inr r \<Longrightarrow>
     (success r \<longleftrightarrow> error r = None)
     \<and> (error r \<noteq> None \<longrightarrow> result r = NoneVal)
     \<and> (\<not> subclass_instance v \<longrightarrow> (error r = None \<longleftrightarrow> result r \<noteq> NoneVal))"
proof (cases "py_str v")
  case (Inl e)
  assume "fst (safe_example_function mem v f) = Inr r"
  then show ?thesis
    using Inl safe_raises [of v e mem f] by simp
next
  case (Inr s)
  assume r: "fst (safe_example_function mem v f) = Inr r"
  obtain out log where call: "optimized_example_function mem v f = (out, log)"
    by (cases "optimized_example_function mem v f")
  show ?thesis
  proof (cases out)
    case (Inl e)
    then show ?thesis
      using r Inr call ancestor_cases [of e] safe_reported [of v s mem f e log]
        safe_unexpected [of v s mem f e log] safe_passes [of v s mem f e log]
      by auto
  next
    case (Inr y)
    have "y \<noteq> NoneVal" if "\<not> subclass_instance v"
      using that call Inr transform_not_none [of v mem f y] by simp
    then show ?thesis
      using r \<open>py_str v = Inr s\<close> Inr call safe_success [of v s mem f y log] by auto
  qed
qed

lemma memory_error_sample:
  "optimized_example_function sample_mem (Str ''a'') (2 ^ 62)
     = (Inl memory_error,
        [(WARNING, ''String multiplication would create a very large string (''
                     @ str_int (2 ^ 62) @ '' chars)'')])"
proof -
  have "py_str_int (2 ^ 62) = Inr (str_int (2 ^ 62))"
    by (rule py_str_int_small) simp
  then show ?thesis
    by (simp add: optimized_example_function_def process_string_value_def str_repeat_def
        times_def maxsize_def sample_mem_def)
qed

theorem safe_result_invariant_witness:
  "(\<exists>r. fst (safe_example_function sample_mem (Str ''Hello'') 3) = Inr r
        \<and> success r \<and> error r = None \<and> result r \<noteq> NoneVal)
   \<and> (\<exists>r. fst (safe_example_function sample_mem (Num (PInt 10)) (- 1)) = Inr r
        \<and> \<not> success r \<and> error r \<noteq> None \<and> result r = NoneVal)
   \<and> (\<exists>r. fst (safe_example_function sample_mem (Str ''a'') (2 ^ 62)) = Inr r
        \<and> \<not> success r \<and> error r \<noteq> None \<and> result r = NoneVal)"
proof -
  have a: "\<exists>r. fst (safe_example_function sample_mem (Str ''Hello'') 3) = Inr r \<and> success r"
    by (simp add: safe_example_function_def try_except_def optimized_example_function_def
        process_string_value_def str_repeat_def times_def maxsize_def sample_mem_def)
  have b: "\<exists>r. fst (safe_example_function sample_mem (Num (PInt 10)) (- 1)) = Inr r
      \<and> \<not> success r"
    using small_below_limit [of 10]
    by (simp add: safe_example_function_def try_except_def optimized_example_function_def
        py_str_int_def as_text_def)
  have c: "\<exists>r. fst (safe_example_function sample_mem (Str ''a'') (2 ^ 62)) = Inr r
      \<and> \<not> success r"
    using safe_unexpected [of "Str ''a''" "Text ''a''" sample_mem "2 ^ 62" memory_error,
        OF _ memory_error_sample]
    by simp
  from a obtain ra where ra: "fst (safe_example_function sample_mem (Str ''Hello'') 3) = Inr ra"
    "success ra" by (elim exE conjE) (rule that; assumption)
  from b obtain rb where rb:
    "fst (safe_example_function sample_mem (Num (PInt 10)) (- 1)) = Inr rb" "\<not> success rb"
    by (elim exE conjE) (rule that; assumption)
  from c obtain rc where rc:
    "fst (safe_example_function sample_mem (Str ''a'') (2 ^ 62)) = Inr rc" "\<not> success rc"
    by (elim exE conjE) (rule that; assumption)
  have ia: "error ra = None \<and> result ra \<noteq> NoneVal"
    using safe_result_invariant [OF ra(1)] ra(2) by auto
  have ib: "error rb \<noteq> None \<and> result rb = NoneVal"
    using safe_result_invariant [OF rb(1)] rb(2) by auto
  have ic: "error rc \<noteq> None \<and> result rc = NoneVal"
    using safe_result_invariant [OF rc(1)] rc(2) by auto
  show ?thesis
  proof (intro conjI)
    show "\<exists>r. fst (safe_example_function sample_mem (Str ''Hello'') 3) = Inr r
        \<and> success r \<and> error r = None \<and> result r \<noteq> NoneVal"
      using ra ia by (intro exI [of _ ra]) simp
    show "\<exists>r. fst (safe_example_function sample_mem (Num (PInt 10)) (- 1)) = Inr r
        \<and> \<not> success r \<and> error r \<noteq> None \<and> result r = NoneVal"
      using rb ib by (intro exI [of _ rb]) simp
    show "\<exists>r. fst (safe_example_function sample_mem (Str ''a'') (2 ^ 62)) = Inr r
        \<and> \<not> success r \<and> error r \<noteq> None \<and> result r = NoneVal"
      using rc ic by (intro exI [of _ rc]) simp
  qed
qed

text \<open>
  C7 as stated fails on an instance of a subclass of \<^verbatim>\<open>str\<close> whose \<^verbatim>\<open>__mul__\<close>
  returns \<^verbatim>\<open>None\<close>: the wrapper returns a result with \<^verbatim>\<open>success\<close> true and
  \<^verbatim>\<open>error\<close> \<^verbatim>\<open>None\<close> whose \<^verbatim>\<open>result\<close> is \<^verbatim>\<open>None\<close>.
\<close>

theorem safe_none_result_counterexample:
  "safe_example_function sample_mem none_product 2
     = (Inr \<lparr>success = True, result = NoneVal, error = None,
              type_info = \<lparr>info_input_type = ''S'', info_input_value = Text ''a'',
                           info_multiplier = 2\<rparr>\<rparr>, [])"
  by (simp add: safe_example_function_def try_except_def optimized_example_function_def
      process_string_value_def times_def none_product_def as_text_def)

text \<open>
  C8, as the code has it. The first handler catches \<^verbatim>\<open>OverflowError\<close> with
  \<^verbatim>\<open>TypeError\<close> and \<^verbatim>\<open>ValueError\<close>: where the transforming function fails with an
  exception of one of these three classes, the result that the wrapper returns holds
  the name of its class and its own message, and nothing is added to the log. Where it
  fails with any other \<^verbatim>\<open>Exception\<close>, \<^verbatim>\<open>MemoryError\<close> for one, the result holds
  \<^verbatim>\<open>UnexpectedError\<close> and the fixed message, and the message of the failure goes to the
  log alone. In both cases \<^verbatim>\<open>success\<close> is false and \<^verbatim>\<open>result\<close> is \<^verbatim>\<open>None\<close>.
\<close>

theorem safe_error_report:
  "fst (optimized_example_function mem v f) = Inl e \<Longrightarrow>
   fst (safe_example_function mem v f) = Inr r \<Longrightarrow>
     \<not> success r \<and> result r = NoneVal
     \<and> (exn_ancestor e \<in> {TypeError, ValueError, OverflowError} \<longrightarrow>
          error r = Some \<lparr>err_type = exn_name e, err_message = exn_message e\<rparr>
          \<and> snd (safe_example_function mem v f) = snd (optimized_example_function mem v f))
     \<and> (exn_ancestor e \<notin> {TypeError, ValueError, OverflowError} \<longrightarrow>
          exn_ancestor e = Exception
          \<and> error r = Some \<lparr>err_type = ''UnexpectedError'',
                              err_message = ''An unexpected error occurred''\<rparr>
          \<and> snd (safe_example_function mem v f) =
              snd (optimized_example_function mem v f)
                @ [(ERROR, ''Unexpected error in safe_example_function: '' @ exn_message e)])"
proof -
  assume e: "fst (optimized_example_function mem v f) = Inl e"
    and r: "fst (safe_example_function mem v f) = Inr r"
  obtain log where call: "optimized_example_function mem v f = (Inl e, log)"
    using e by (cases "optimized_example_function mem v f") simp
  show ?thesis
  proof (cases "py_str v")
    case (Inl e')
    then show ?thesis
      using r safe_raises [of v e' mem f] by simp
  next
    case (Inr s)
    consider "exn_ancestor e \<in> {TypeError, ValueError, OverflowError}"
      | "exn_ancestor e = Exception" | "exn_ancestor e = BaseException"
      using ancestor_cases [of e] by blast
    then show ?thesis
    proof cases
      case 1
      then show ?thesis
        using r call safe_reported [OF Inr call 1] by auto
    next
      case 2
      then show ?thesis
        using r call safe_unexpected [OF Inr call 2] by auto
    next
      case 3
      then show ?thesis
        using r safe_passes [OF Inr call 3] by simp
    qed
  qed
qed

theorem safe_error_report_witness:
  "fst (optimized_example_function sample_mem (Str ''a'') (2 ^ 62)) = Inl memory_error
   \<and> exn_ancestor memory_error \<notin> {TypeError, ValueError, OverflowError}
   \<and> (\<exists>r. fst (safe_example_function sample_mem (Str ''a'') (2 ^ 62)) = Inr r
          \<and> \<not> success r \<and> result r = NoneVal
          \<and> error r = Some \<lparr>err_type = ''UnexpectedError'',
                              err_message = ''An unexpected error occurred''\<rparr>)
   \<and> snd (safe_example_function sample_mem (Str ''a'') (2 ^ 62)) =
       snd (optimized_example_function sample_mem (Str ''a'') (2 ^ 62))
         @ [(ERROR, ''Unexpected error in safe_example_function: '')]
   \<and> fst (optimized_example_function sample_mem (Num (PInt 10)) (- 1))
       = Inl (value_error ''Multiplier must be non-negative'')
   \<and> (\<exists>r. fst (safe_example_function sample_mem (Num (PInt 10)) (- 1)) = Inr r
          \<and> \<not> success r \<and> result r = NoneVal
          \<and> error r = Some \<lparr>err_type = ''ValueError'',
                              err_message = ''Multiplier must be non-negative''\<rparr>)"
proof -
  have e1: "fst (optimized_example_function sample_mem (Str ''a'') (2 ^ 62)) = Inl memory_error"
    using memory_error_sample by simp
  have e2: "fst (optimized_example_function sample_mem (Num (PInt 10)) (- 1))
      = Inl (value_error ''Multiplier must be non-negative'')"
    by (simp add: optimized_example_function_def)
  have "\<exists>r. fst (safe_example_function sample_mem (Str ''a'') (2 ^ 62)) = Inr r"
    using safe_unexpected [of "Str ''a''" "Text ''a''" sample_mem "2 ^ 62" memory_error,
        OF _ memory_error_sample]
    by simp
  then obtain r1 where r1: "fst (safe_example_function sample_mem (Str ''a'') (2 ^ 62)) = Inr r1" ..
  have "\<exists>r. fst (safe_example_function sample_mem (Num (PInt 10)) (- 1)) = Inr r"
    using small_below_limit [of 10]
    by (simp add: safe_example_function_def try_except_def optimized_example_function_def
        py_str_int_def as_text_def)
  then obtain r2 where r2:
    "fst (safe_example_function sample_mem (Num (PInt 10)) (- 1)) = Inr r2" ..
  note a = safe_error_report [OF e1 r1]
  note b = safe_error_report [OF e2 r2]
  show ?thesis
  proof (intro conjI)
    show "fst (optimized_example_function sample_mem (Str ''a'') (2 ^ 62)) = Inl memory_error"
      by (rule e1)
    show "exn_ancestor memory_error \<notin> {TypeError, ValueError, OverflowError}"
      by simp
    show "\<exists>r. fst (safe_example_function sample_mem (Str ''a'') (2 ^ 62)) = Inr r
          \<and> \<not> success r \<and> result r = NoneVal
          \<and> error r = Some \<lparr>err_type = ''UnexpectedError'',
                              err_message = ''An unexpected error occurred''\<rparr>"
      using a r1 by (intro exI [of _ r1]) simp
    show "snd (safe_example_function sample_mem (Str ''a'') (2 ^ 62)) =
       snd (optimized_example_function sample_mem (Str ''a'') (2 ^ 62))
         @ [(ERROR, ''Unexpected error in safe_example_function: '')]"
      using a by simp
    show "fst (optimized_example_function sample_mem (Num (PInt 10)) (- 1))
       = Inl (value_error ''Multiplier must be non-negative'')"
      by (rule e2)
    show "\<exists>r. fst (safe_example_function sample_mem (Num (PInt 10)) (- 1)) = Inr r
          \<and> \<not> success r \<and> result r = NoneVal
          \<and> error r = Some \<lparr>err_type = ''ValueError'',
                              err_message = ''Multiplier must be non-negative''\<rparr>"
      using b r2 by (intro exI [of _ r2]) simp
  qed
qed

text \<open>
  C8 as stated fails on \<^verbatim>\<open>OverflowError\<close>: with the factor \<open>2\<^sup>1\<^sup>0\<^sup>2\<^sup>4\<close> the
  transforming function fails on the float 2.5 with a failure that is neither
  \<^verbatim>\<open>ValueError\<close> nor \<^verbatim>\<open>TypeError\<close>, and the wrapper reports it as
  \<^verbatim>\<open>OverflowError\<close> with the interpreter's message, not as \<^verbatim>\<open>UnexpectedError\<close> with
  the fixed one.
\<close>

theorem safe_overflow_counterexample:
  "fst (optimized_example_function sample_mem (Num (PFloat float_2_5)) (2 ^ 1024))
     = Inl (overflow_error ''int too large to convert to float'')
   \<and> OverflowError \<noteq> ValueError \<and> OverflowError \<noteq> TypeError
   \<and> fst (safe_example_function sample_mem (Num (PFloat float_2_5)) (2 ^ 1024))
       = Inr \<lparr>success = False, result = NoneVal,
               error = Some \<lparr>err_type = ''OverflowError'',
                             err_message = ''int too large to convert to float''\<rparr>,
               type_info = \<lparr>info_input_type = ''float'',
                            info_input_value = FloatText float_2_5,
                            info_multiplier = 2 ^ 1024\<rparr>\<rparr>"
  by (simp add: safe_example_function_def try_except_def optimized_example_function_def
      process_numeric_value_def times_def float_of_int_def float_limit_def
      except_overflow_def)

section \<open>The batch function\<close>

lemma group_values_filter:
  "group_values ps (ns, ss, os) =
     (ns @ filter (numeric \<circ> snd) ps, ss @ filter (textual \<circ> snd) ps,
      os @ filter (other \<circ> snd) ps)"
proof (induction ps arbitrary: ns ss os)
  case Nil
  then show ?case by simp
next
  case (Cons p ps)
  obtain i v where p: "p = (i, v)" by (cases p)
  show ?case
    using Cons.IH by (cases v) (simp_all add: p numeric_def textual_def other_def)
qed

lemma results_at_update:
  "r < length h \<Longrightarrow> results_at (h[r := Results rs]) r = Some rs"
  by (simp add: results_at_def)

lemma results_at_same:
  "results_at h r = Some rs \<Longrightarrow> h[r := Results rs] = h"
  by (auto simp: results_at_def list_update_same_conv split: if_splits pylist.splits)

lemma results_at_length: "results_at h r = Some rs \<Longrightarrow> r < length h"
  by (auto simp: results_at_def split: if_splits)

lemma process_group_run:
  assumes "results_at h r = Some rs" and "\<forall>p \<in> set ps. fst p < length rs"
  shows "\<exists>rs' log. process_group mem h r ps f =
           Some (h[r := Results rs'],
                 (case run_group mem rs ps f of Inl e \<Rightarrow> Inl e | Inr rs'' \<Rightarrow> Inr ()), log)
         \<and> length rs' = length rs
         \<and> (\<forall>rs''. run_group mem rs ps f = Inr rs'' \<longrightarrow> rs' = rs'')"
  using assms
proof (induction ps arbitrary: h rs)
  case Nil
  then show ?case
    using results_at_same [of h r rs] by auto
next
  case (Cons p ps)
  obtain i v where p: "p = (i, v)" by (cases p)
  have i: "i < length rs" using Cons.prems(2) p by simp
  have r: "r < length h" using Cons.prems(1) by (rule results_at_length)
  obtain out log where call: "safe_example_function mem v f = (out, log)"
    by (cases "safe_example_function mem v f")
  show ?case
  proof (cases out)
    case (Inl e)
    have same: "h[r := Results rs] = h"
      using Cons.prems(1) by (rule results_at_same)
    show ?thesis
      by (rule exI [of _ rs], rule exI [of _ log]) (simp add: call Inl p same)
  next
    case (Inr x)
    let ?h = "h[r := Results (rs[i := Some x])]"
    have set: "setitem h r i x = Some (Inr ?h)"
      using Cons.prems(1) i by (simp add: setitem_def)
    have at: "results_at ?h r = Some (rs[i := Some x])"
      using r by (rule results_at_update)
    have idx: "\<forall>q \<in> set ps. fst q < length (rs[i := Some x])"
      using Cons.prems(2) by simp
    obtain rs' log' where rest:
      "process_group mem ?h r ps f =
         Some (?h[r := Results rs'],
               (case run_group mem (rs[i := Some x]) ps f of
                  Inl e \<Rightarrow> Inl e | Inr rs'' \<Rightarrow> Inr ()), log')"
      "length rs' = length (rs[i := Some x])"
      "\<forall>rs''. run_group mem (rs[i := Some x]) ps f = Inr rs'' \<longrightarrow> rs' = rs''"
      using Cons.IH [OF at idx] by blast
    show ?thesis
      using call Inr p set rest by auto
  qed
qed

lemma run_group_nth:
  assumes "\<forall>p \<in> set ps. fst p < length rs \<and> snd p = xs ! fst p"
    and "run_group mem rs ps f = Inr rs'"
  shows "length rs' = length rs
    \<and> (\<forall>j < length rs. rs' ! j =
          (if j \<in> fst ` set ps then Some (projr (fst (safe_example_function mem (xs ! j) f)))
           else rs ! j))"
  using assms
proof (induction ps arbitrary: rs)
  case Nil
  then show ?case by simp
next
  case (Cons p ps)
  obtain i v where p: "p = (i, v)" by (cases p)
  have i: "i < length rs" and v: "v = xs ! i"
    using Cons.prems(1) p by simp_all
  obtain x where x: "fst (safe_example_function mem v f) = Inr x"
    and rest: "run_group mem (rs[i := Some x]) ps f = Inr rs'"
    using Cons.prems(2) p by (auto split: sum.splits)
  have idx: "\<forall>q \<in> set ps. fst q < length (rs[i := Some x]) \<and> snd q = xs ! fst q"
    using Cons.prems(1) by simp
  have ih: "length rs' = length (rs[i := Some x])
    \<and> (\<forall>j < length (rs[i := Some x]). rs' ! j =
          (if j \<in> fst ` set ps then Some (projr (fst (safe_example_function mem (xs ! j) f)))
           else rs[i := Some x] ! j))"
    using Cons.IH [OF idx rest] .
  show ?case
  proof (intro conjI allI impI)
    show "length rs' = length rs" using ih by simp
  next
    fix j assume j: "j < length rs"
    show "rs' ! j =
      (if j \<in> fst ` set (p # ps)
       then Some (projr (fst (safe_example_function mem (xs ! j) f))) else rs ! j)"
    proof (cases "j = i")
      case True
      then show ?thesis
        using ih j p x v by (auto simp: nth_list_update)
    next
      case False
      then show ?thesis
        using ih j p by (auto simp: nth_list_update)
    qed
  qed
qed

lemma run_group_returns:
  "\<forall>p \<in> set ps. \<exists>x. fst (safe_example_function mem (snd p) f) = Inr x \<Longrightarrow>
     \<exists>rs'. run_group mem rs ps f = Inr rs'"
proof (induction ps arbitrary: rs)
  case Nil
  then show ?case by simp
next
  case (Cons p ps)
  obtain i v where p: "p = (i, v)" by (cases p)
  obtain x where x: "fst (safe_example_function mem v f) = Inr x"
    using Cons.prems p by auto
  have "\<forall>q \<in> set ps. \<exists>x. fst (safe_example_function mem (snd q) f) = Inr x"
    using Cons.prems by simp
  then obtain rs' where "run_group mem (rs[i := Some x]) ps f = Inr rs'"
    using Cons.IH by blast
  then show ?case using p x by simp
qed

text \<open>
  What a call on a list does: it appends a list of results of the length of the
  argument to the heap and changes nothing else; and where every call of the wrapper
  returns, it returns the address of that list, which holds at each index the result of
  the wrapper on the value at that index.
\<close>

lemma batch_list_outcome:
  assumes "values_at h a = Some xs"
  shows "\<exists>rs out log. batch_process_values mem h (ListAt a) f =
           Some (h @ [Results rs], out, log)
         \<and> length rs = length xs
         \<and> (\<forall>r. out = Inr r \<longrightarrow> r = length h)
         \<and> ((\<forall>x \<in> set xs. \<exists>y. fst (safe_example_function mem x f) = Inr y) \<longrightarrow>
              out = Inr (length h)
              \<and> rs = map (\<lambda>v. Some (projr (fst (safe_example_function mem v f)))) xs)"
proof -
  let ?ps = "enumerate 0 xs"
  let ?ns = "filter (numeric \<circ> snd) ?ps"
  let ?ss = "filter (textual \<circ> snd) ?ps"
  let ?os = "filter (other \<circ> snd) ?ps"
  let ?r = "length h"
  let ?rs0 = "replicate (length xs) (None :: safe_result option)"
  let ?h0 = "h @ [Results ?rs0]"
  let ?val = "\<lambda>j. Some (projr (fst (safe_example_function mem (xs ! j) f)))"
  let ?ret = "\<forall>x \<in> set xs. \<exists>y. fst (safe_example_function mem x f) = Inr y"
  have r0: "?r < length ?h0" by simp
  have at0: "results_at ?h0 ?r = Some ?rs0"
    by (simp add: results_at_def)
  have idx: "\<forall>p \<in> set ?ps. fst p < length xs \<and> snd p = xs ! fst p"
    by (auto simp: in_set_enumerate_eq)
  \<comment> \<open>the numeric values\<close>
  have idx_n: "\<forall>p \<in> set ?ns. fst p < length ?rs0" using idx by simp
  obtain rs1 log1 where g1:
    "process_group mem ?h0 ?r ?ns f =
       Some (?h0[?r := Results rs1],
             (case run_group mem ?rs0 ?ns f of Inl e \<Rightarrow> Inl e | Inr rs'' \<Rightarrow> Inr ()), log1)"
    "length rs1 = length ?rs0"
    "\<forall>rs''. run_group mem ?rs0 ?ns f = Inr rs'' \<longrightarrow> rs1 = rs''"
    using process_group_run [OF at0 idx_n, of mem f] by (elim exE conjE) (rule that; assumption)
  let ?h1 = "?h0[?r := Results rs1]"
  have at1: "results_at ?h1 ?r = Some rs1"
    using r0 by (rule results_at_update)
  \<comment> \<open>the strings\<close>
  have idx_s: "\<forall>p \<in> set ?ss. fst p < length rs1" using idx g1(2) by simp
  obtain rs2 log2 where g2:
    "process_group mem ?h1 ?r ?ss f =
       Some (?h1[?r := Results rs2],
             (case run_group mem rs1 ?ss f of Inl e \<Rightarrow> Inl e | Inr rs'' \<Rightarrow> Inr ()), log2)"
    "length rs2 = length rs1"
    "\<forall>rs''. run_group mem rs1 ?ss f = Inr rs'' \<longrightarrow> rs2 = rs''"
    using process_group_run [OF at1 idx_s, of mem f] by (elim exE conjE) (rule that; assumption)
  let ?h2 = "?h1[?r := Results rs2]"
  have at2: "results_at ?h2 ?r = Some rs2"
    by (rule results_at_update) simp
  \<comment> \<open>the other values\<close>
  have idx_o: "\<forall>p \<in> set ?os. fst p < length rs2" using idx g1(2) g2(2) by simp
  obtain rs3 log3 where g3:
    "process_group mem ?h2 ?r ?os f =
       Some (?h2[?r := Results rs3],
             (case run_group mem rs2 ?os f of Inl e \<Rightarrow> Inl e | Inr rs'' \<Rightarrow> Inr ()), log3)"
    "length rs3 = length rs2"
    "\<forall>rs''. run_group mem rs2 ?os f = Inr rs'' \<longrightarrow> rs3 = rs''"
    using process_group_run [OF at2 idx_o, of mem f] by (elim exE conjE) (rule that; assumption)
  have h1: "?h1 = h @ [Results rs1]" by simp
  have h2: "?h2 = h @ [Results rs2]" by simp
  have h3: "?h2[?r := Results rs3] = h @ [Results rs3]" by simp
  have len1: "length rs1 = length xs" using g1(2) by simp
  have len2: "length rs2 = length xs" using g1(2) g2(2) by simp
  have len3: "length rs3 = length xs" using g1(2) g2(2) g3(2) by simp
  have groups: "group_values ?ps ([], [], []) = (?ns, ?ss, ?os)"
    by (simp add: group_values_filter)
  \<comment> \<open>where every call of the wrapper returns\<close>
  have runs: "run_group mem ?rs0 ?ns f = Inr rs1 \<and> run_group mem rs1 ?ss f = Inr rs2
      \<and> run_group mem rs2 ?os f = Inr rs3" if ret: ?ret
  proof -
    have all: "\<forall>p \<in> set ?ps. \<exists>y. fst (safe_example_function mem (snd p) f) = Inr y"
    proof
      fix p assume "p \<in> set ?ps"
      then have "fst p < length xs \<and> snd p = xs ! fst p"
        using idx by simp
      then have "snd p \<in> set xs"
        by simp
      with ret show "\<exists>y. fst (safe_example_function mem (snd p) f) = Inr y"
        by (rule bspec)
    qed
    have n: "\<forall>p \<in> set ?ns. \<exists>y. fst (safe_example_function mem (snd p) f) = Inr y"
      using all by simp
    have s: "\<forall>p \<in> set ?ss. \<exists>y. fst (safe_example_function mem (snd p) f) = Inr y"
      using all by simp
    have o: "\<forall>p \<in> set ?os. \<exists>y. fst (safe_example_function mem (snd p) f) = Inr y"
      using all by simp
    from run_group_returns [OF n, of ?rs0] obtain a where "run_group mem ?rs0 ?ns f = Inr a" ..
    then have 1: "run_group mem ?rs0 ?ns f = Inr rs1" using g1(3) by simp
    from run_group_returns [OF s, of rs1] obtain b where "run_group mem rs1 ?ss f = Inr b" ..
    then have 2: "run_group mem rs1 ?ss f = Inr rs2" using g2(3) by simp
    from run_group_returns [OF o, of rs2] obtain c where "run_group mem rs2 ?os f = Inr c" ..
    then have 3: "run_group mem rs2 ?os f = Inr rs3" using g3(3) by simp
    show ?thesis using 1 2 3 by (intro conjI)
  qed
  have vals: "rs3 = map (\<lambda>v. Some (projr (fst (safe_example_function mem v f)))) xs"
    if ret: ?ret
  proof -
    have run1: "run_group mem ?rs0 ?ns f = Inr rs1"
      and run2: "run_group mem rs1 ?ss f = Inr rs2"
      and run3: "run_group mem rs2 ?os f = Inr rs3"
      using runs [OF ret] by simp_all
    have n1: "\<forall>j < length xs. rs1 ! j = (if j \<in> fst ` set ?ns then ?val j else None)"
      using run_group_nth [of ?ns ?rs0 xs mem f rs1] idx run1 by simp
    have n2: "\<forall>j < length xs. rs2 ! j = (if j \<in> fst ` set ?ss then ?val j else rs1 ! j)"
      using run_group_nth [of ?ss rs1 xs mem f rs2] idx run2 g1(2) by simp
    have n3: "\<forall>j < length xs. rs3 ! j = (if j \<in> fst ` set ?os then ?val j else rs2 ! j)"
      using run_group_nth [of ?os rs2 xs mem f rs3] idx run3 g1(2) g2(2) by simp
    have mem: "j \<in> fst ` set ?ns \<or> j \<in> fst ` set ?ss \<or> j \<in> fst ` set ?os"
      if "j < length xs" for j
    proof -
      have "(j, xs ! j) \<in> set ?ps"
        using that by (simp add: in_set_enumerate_eq)
      then have "(j, xs ! j) \<in> set ?ns \<or> (j, xs ! j) \<in> set ?ss \<or> (j, xs ! j) \<in> set ?os"
        by (auto simp: other_def)
      then show ?thesis by force
    qed
    show ?thesis
    proof (rule nth_equalityI)
      show "length rs3 = length (map (\<lambda>v. Some (projr (fst (safe_example_function mem v f)))) xs)"
        using len3 by simp
    next
      fix j assume "j < length rs3"
      then have j: "j < length xs" using len3 by simp
      have "rs3 ! j = ?val j"
        using n1 n2 n3 mem [OF j] j by auto
      then show "rs3 ! j = map (\<lambda>v. Some (projr (fst (safe_example_function mem v f)))) xs ! j"
        using j by simp
    qed
  qed
  show ?thesis
  proof (cases "run_group mem ?rs0 ?ns f")
    case (Inl e)
    have eq: "batch_process_values mem h (ListAt a) f = Some (h @ [Results rs1], Inl e, log1)"
      using assms groups g1(1) Inl h1 by (simp add: batch_process_values_def)
    have no: "\<not> ?ret" using runs Inl by auto
    show ?thesis
      by (rule exI [of _ rs1], rule exI [of _ "Inl e"], rule exI [of _ log1])
        (simp add: eq len1 no)
  next
    case n: (Inr a1)
    show ?thesis
    proof (cases "run_group mem rs1 ?ss f")
      case (Inl e)
      have eq: "batch_process_values mem h (ListAt a) f =
          Some (h @ [Results rs2], Inl e, log1 @ log2)"
        using assms groups g1(1) g2(1) n Inl h2 by (simp add: batch_process_values_def)
      have no: "\<not> ?ret" using runs Inl by auto
      show ?thesis
        by (rule exI [of _ rs2], rule exI [of _ "Inl e"], rule exI [of _ "log1 @ log2"])
          (simp add: eq len2 no)
    next
      case s: (Inr a2)
      show ?thesis
      proof (cases "run_group mem rs2 ?os f")
        case (Inl e)
        have eq: "batch_process_values mem h (ListAt a) f =
            Some (h @ [Results rs3], Inl e, log1 @ log2 @ log3)"
          using assms groups g1(1) g2(1) g3(1) n s Inl h3
          by (simp add: batch_process_values_def)
        have no: "\<not> ?ret" using runs Inl by auto
        show ?thesis
          by (rule exI [of _ rs3], rule exI [of _ "Inl e"],
              rule exI [of _ "log1 @ log2 @ log3"])
            (simp add: eq len3 no)
      next
        case o: (Inr a3)
        have eq: "batch_process_values mem h (ListAt a) f =
            Some (h @ [Results rs3], Inr (length h), log1 @ log2 @ log3)"
          using assms groups g1(1) g2(1) g3(1) n s o h3
          by (simp add: batch_process_values_def)
        show ?thesis
          by (rule exI [of _ rs3], rule exI [of _ "Inr (length h)"],
              rule exI [of _ "log1 @ log2 @ log3"])
            (use vals in \<open>simp add: eq len3\<close>)
      qed
    qed
  qed
qed

lemma transform_exact_exn:
  assumes "\<not> subclass_instance v" and "fst (optimized_example_function mem v f) = Inl e"
  shows "exn_ancestor e \<noteq> BaseException"
proof (cases v)
  case (Num n)
  have "exn_ancestor e' \<noteq> BaseException"
    if "map_sum id Num (num_mul n f) = Inl e'" for e'
  proof -
    have "num_mul n f = Inl e'"
      using that by (cases "num_mul n f") simp_all
    then show ?thesis using num_mul_exn [of n f e'] by simp
  qed
  then show ?thesis
    using assms(2) Num
    by (cases n)
      (auto simp: optimized_example_function_def process_numeric_value_def times_def
        except_overflow_def py_str_int_def float_of_int_def split: if_splits sum.splits)
next
  case (Str s)
  have "exn_ancestor e' \<noteq> BaseException"
    if "map_sum id Str (str_repeat mem s f) = Inl e'" for e'
  proof -
    have "str_repeat mem s f = Inl e'"
      using that by (cases "str_repeat mem s f") simp_all
    then show ?thesis using str_repeat_exn [of mem s f e'] by auto
  qed
  then show ?thesis
    using assms(2) Str
    by (auto simp: optimized_example_function_def process_string_value_def times_def
        py_str_int_def split: if_splits sum.splits)
next
  case NoneVal
  then show ?thesis
    using assms(2) by (auto simp: optimized_example_function_def split: if_splits)
next
  case (Obj ob)
  then show ?thesis
    using assms(2) by (auto simp: optimized_example_function_def split: if_splits)
next
  case (SubNum n c)
  then show ?thesis using assms(1) by simp
next
  case (SubStr s c)
  then show ?thesis using assms(1) by simp
qed

lemma safe_returns:
  assumes "py_str v = Inr s"
    and "\<forall>e. fst (optimized_example_function mem v f) = Inl e \<longrightarrow>
           exn_ancestor e \<noteq> BaseException"
  shows "\<exists>r. fst (safe_example_function mem v f) = Inr r"
proof -
  obtain out log where call: "optimized_example_function mem v f = (out, log)"
    by (cases "optimized_example_function mem v f")
  show ?thesis
  proof (cases out)
    case (Inr y)
    then show ?thesis using assms(1) call safe_success [of v s mem f y log] by simp
  next
    case (Inl e)
    then have "exn_ancestor e \<noteq> BaseException"
      using assms(2) call by simp
    then show ?thesis
      using Inl assms(1) call ancestor_cases [of e] safe_reported [of v s mem f e log]
        safe_unexpected [of v s mem f e log]
      by auto
  qed
qed

text \<open>
  C2 fails on the code, by the defect of C1: on the list that holds the one object
  whose \<^verbatim>\<open>__str__\<close> raises \<^verbatim>\<open>RuntimeError("boom")\<close> the batch function returns no
  list: the wrapper raises on the element, and the exception leaves the batch function,
  the list of results allocated and unfilled.
\<close>

theorem batch_raises_on_str_failure:
  "batch_process_values mem [Values [bad_object]] (ListAt 0) 2
     = Some ([Values [bad_object], Results [None]],
             Inl (Exn Exception ''RuntimeError'' ''boom''), [])"
  by (simp add: batch_process_values_def values_at_def safe_example_function_def
      bad_object_def as_text_def)

text \<open>
  C9, as the code has it. The function fails with \<^verbatim>\<open>TypeError\<close> and the message
  \<^verbatim>\<open>Values must be a list\<close> on every argument that is not a list, a tuple or another
  sequence that is no list included, and leaves the heap as it is. On a list whose
  elements all have a \<^verbatim>\<open>str\<close> that returns, and on none of which the transforming
  function raises an exception that is no \<^verbatim>\<open>Exception\<close>, it returns a new list of
  results of the length of the list, and each failure of the transforming function on an
  element is held in the result of that element, with \<^verbatim>\<open>success\<close> false: under the
  name of its class and with its message where it derives from \<^verbatim>\<open>TypeError\<close>,
  \<^verbatim>\<open>ValueError\<close> or \<^verbatim>\<open>OverflowError\<close>, and as \<^verbatim>\<open>UnexpectedError\<close> with the fixed
  message otherwise.
\<close>

theorem batch_failures:
  "batch_process_values mem h (NotList v) f
     = Some (h, Inl (type_error ''Values must be a list''), [])
   \<and> (values_at h a = Some xs
        \<and> (\<forall>x \<in> set xs. (\<exists>s. py_str x = Inr s)
              \<and> (\<forall>e. fst (optimized_example_function mem x f) = Inl e \<longrightarrow>
                    exn_ancestor e \<noteq> BaseException)) \<longrightarrow>
        (\<exists>h' log ys.
           batch_process_values mem h (ListAt a) f = Some (h', Inr (length h), log)
           \<and> results_at h' (length h) = Some (map Some ys)
           \<and> length ys = length xs
           \<and> (\<forall>i < length xs. \<forall>e.
                fst (optimized_example_function mem (xs ! i) f) = Inl e \<longrightarrow>
                  \<not> success (ys ! i)
                  \<and> error (ys ! i) =
                      Some (if exn_ancestor e = Exception
                            then \<lparr>err_type = ''UnexpectedError'',
                                  err_message = ''An unexpected error occurred''\<rparr>
                            else \<lparr>err_type = exn_name e, err_message = exn_message e\<rparr>))))"
proof (intro conjI impI)
  show "batch_process_values mem h (NotList v) f
     = Some (h, Inl (type_error ''Values must be a list''), [])"
    by (simp add: batch_process_values_def)
next
  let ?ys = "map (\<lambda>v. projr (fst (safe_example_function mem v f))) xs"
  assume a: "values_at h a = Some xs
    \<and> (\<forall>x \<in> set xs. (\<exists>s. py_str x = Inr s)
          \<and> (\<forall>e. fst (optimized_example_function mem x f) = Inl e \<longrightarrow>
                exn_ancestor e \<noteq> BaseException))"
  then have v: "values_at h a = Some xs" by (rule conjunct1)
  have hyp: "\<forall>x \<in> set xs. (\<exists>s. py_str x = Inr s)
      \<and> (\<forall>e. fst (optimized_example_function mem x f) = Inl e \<longrightarrow>
            exn_ancestor e \<noteq> BaseException)"
    using a by (rule conjunct2)
  have ret: "\<forall>x \<in> set xs. \<exists>y. fst (safe_example_function mem x f) = Inr y"
  proof
    fix x assume "x \<in> set xs"
    with hyp have x: "(\<exists>s. py_str x = Inr s)
      \<and> (\<forall>e. fst (optimized_example_function mem x f) = Inl e \<longrightarrow>
            exn_ancestor e \<noteq> BaseException)"
      by (rule bspec)
    then obtain s where s: "py_str x = Inr s" by (elim exE conjE)
    show "\<exists>y. fst (safe_example_function mem x f) = Inr y"
      using safe_returns [OF s] x by simp
  qed
  obtain rs out log where b:
    "batch_process_values mem h (ListAt a) f = Some (h @ [Results rs], out, log)"
    "(\<forall>x \<in> set xs. \<exists>y. fst (safe_example_function mem x f) = Inr y) \<longrightarrow>
       out = Inr (length h)
       \<and> rs = map (\<lambda>v. Some (projr (fst (safe_example_function mem v f)))) xs"
    using batch_list_outcome [OF v, of mem f] by (elim exE conjE) (rule that; assumption)
  have out: "out = Inr (length h)"
    and rs: "rs = map (\<lambda>v. Some (projr (fst (safe_example_function mem v f)))) xs"
    using b(2) ret by simp_all
  have rs': "rs = map Some ?ys"
    by (simp add: rs)
  have at: "results_at (h @ [Results rs]) (length h) = Some rs"
    by (simp add: results_at_def)
  have held: "\<not> success (?ys ! i)
      \<and> error (?ys ! i) =
          Some (if exn_ancestor e = Exception
                then \<lparr>err_type = ''UnexpectedError'',
                      err_message = ''An unexpected error occurred''\<rparr>
                else \<lparr>err_type = exn_name e, err_message = exn_message e\<rparr>)"
    if i: "i < length xs" and e: "fst (optimized_example_function mem (xs ! i) f) = Inl e"
    for i e
  proof -
    have mem: "xs ! i \<in> set xs"
      using i by simp
    with hyp have x: "(\<exists>s. py_str (xs ! i) = Inr s)
      \<and> (\<forall>e. fst (optimized_example_function mem (xs ! i) f) = Inl e \<longrightarrow>
            exn_ancestor e \<noteq> BaseException)"
      by (rule bspec)
    then obtain s where s: "py_str (xs ! i) = Inr s" by (elim exE conjE)
    have nb: "exn_ancestor e \<noteq> BaseException"
      using x e by simp
    obtain log' where call: "optimized_example_function mem (xs ! i) f = (Inl e, log')"
      using e by (cases "optimized_example_function mem (xs ! i) f") simp
    have yi: "?ys ! i = projr (fst (safe_example_function mem (xs ! i) f))"
      using i by simp
    show ?thesis
    proof (cases "exn_ancestor e = Exception")
      case True
      show ?thesis
        unfolding yi using True safe_unexpected [OF s call True] by simp
    next
      case False
      then have three: "exn_ancestor e \<in> {TypeError, ValueError, OverflowError}"
        using nb ancestor_cases [of e] by simp
      show ?thesis
        unfolding yi using False safe_reported [OF s call three] by simp
    qed
  qed
  show "\<exists>h' log ys.
      batch_process_values mem h (ListAt a) f = Some (h', Inr (length h), log)
      \<and> results_at h' (length h) = Some (map Some ys)
      \<and> length ys = length xs
      \<and> (\<forall>i < length xs. \<forall>e.
           fst (optimized_example_function mem (xs ! i) f) = Inl e \<longrightarrow>
             \<not> success (ys ! i)
             \<and> error (ys ! i) =
                 Some (if exn_ancestor e = Exception
                       then \<lparr>err_type = ''UnexpectedError'',
                             err_message = ''An unexpected error occurred''\<rparr>
                       else \<lparr>err_type = exn_name e, err_message = exn_message e\<rparr>))"
  proof (rule exI [of _ "h @ [Results rs]"], rule exI [of _ log], rule exI [of _ ?ys],
      intro conjI allI impI)
    show "batch_process_values mem h (ListAt a) f =
        Some (h @ [Results rs], Inr (length h), log)"
      using b(1) out by simp
    show "results_at (h @ [Results rs]) (length h) = Some (map Some ?ys)"
      using at rs' by simp
    show "length ?ys = length xs"
      by simp
  next
    fix i e
    assume i: "i < length xs"
      and e: "fst (optimized_example_function mem (xs ! i) f) = Inl e"
    show "\<not> success (?ys ! i)"
      using held [OF i e] by (rule conjunct1)
    show "error (?ys ! i) =
        Some (if exn_ancestor e = Exception
              then \<lparr>err_type = ''UnexpectedError'',
                    err_message = ''An unexpected error occurred''\<rparr>
              else \<lparr>err_type = exn_name e, err_message = exn_message e\<rparr>)"
      using held [OF i e] by (rule conjunct2)
  qed
qed

theorem batch_failures_witness:
  "batch_process_values sample_mem [Values [Num (PInt 5), list_1_2_3, Str ''a'']]
       (NotList tuple_1_2) (2 ^ 62)
     = Some ([Values [Num (PInt 5), list_1_2_3, Str ''a'']],
             Inl (type_error ''Values must be a list''), [])
   \<and> values_at [Values [Num (PInt 5), list_1_2_3, Str ''a'']] 0
       = Some [Num (PInt 5), list_1_2_3, Str ''a'']
   \<and> (\<exists>s. py_str (Num (PInt 5)) = Inr s) \<and> (\<exists>s. py_str list_1_2_3 = Inr s)
   \<and> (\<exists>s. py_str (Str ''a'') = Inr s)
   \<and> fst (optimized_example_function sample_mem list_1_2_3 (2 ^ 62))
       = Inl (unsupported_type ''<class 'list'>'')
   \<and> fst (optimized_example_function sample_mem (Str ''a'') (2 ^ 62)) = Inl memory_error
   \<and> (\<exists>h' log ys.
        batch_process_values sample_mem [Values [Num (PInt 5), list_1_2_3, Str ''a'']]
            (ListAt 0) (2 ^ 62)
          = Some (h', Inr 1, log)
        \<and> results_at h' 1 = Some (map Some ys)
        \<and> length ys = 3
        \<and> \<not> success (ys ! 1)
        \<and> error (ys ! 1) =
            Some \<lparr>err_type = ''TypeError'',
                  err_message =
                    ''Unsupported type: <class 'list'>. Supported types: int, float, str''\<rparr>
        \<and> \<not> success (ys ! 2)
        \<and> error (ys ! 2) =
            Some \<lparr>err_type = ''UnexpectedError'',
                  err_message = ''An unexpected error occurred''\<rparr>)"
proof -
  let ?xs = "[Num (PInt 5), list_1_2_3, Str ''a'']"
  let ?f = "2 ^ 62 :: int"
  let ?e1 = "unsupported_type ''<class 'list'>''"
  have s1: "py_str (Num (PInt 5)) = Inr (Text (str_int 5))"
    using small_below_limit [of 5] by (simp add: py_str_int_def as_text_def)
  have s2: "py_str list_1_2_3 = Inr (Text ''[1, 2, 3]'')"
    by (simp add: list_1_2_3_def as_text_def)
  have s3: "py_str (Str ''a'') = Inr (Text ''a'')"
    by simp
  have n1: "\<not> subclass_instance (Num (PInt 5))" by simp
  have n2: "\<not> subclass_instance list_1_2_3" by (simp add: list_1_2_3_def)
  have n3: "\<not> subclass_instance (Str ''a'')" by simp
  have hyp: "values_at [Values ?xs] 0 = Some ?xs
    \<and> (\<forall>x \<in> set ?xs. (\<exists>s. py_str x = Inr s)
          \<and> (\<forall>e. fst (optimized_example_function sample_mem x ?f) = Inl e \<longrightarrow>
                exn_ancestor e \<noteq> BaseException))"
    using s1 s2 s3 transform_exact_exn [OF n1, of sample_mem ?f]
      transform_exact_exn [OF n2, of sample_mem ?f]
      transform_exact_exn [OF n3, of sample_mem ?f]
    by (simp add: values_at_def)
  have t1: "fst (optimized_example_function sample_mem (?xs ! 1) ?f) = Inl ?e1"
    by (simp add: list_1_2_3_def optimized_example_function_def)
  have t2: "fst (optimized_example_function sample_mem (?xs ! 2) ?f) = Inl memory_error"
    using memory_error_sample by simp
  note first = batch_failures [of sample_mem "[Values ?xs]" tuple_1_2 ?f 0 ?xs, THEN conjunct1]
  note ex = batch_failures [of sample_mem "[Values ?xs]" tuple_1_2 ?f 0 ?xs,
      THEN conjunct2, THEN mp, OF hyp]
  from ex obtain h' log ys where
    b: "batch_process_values sample_mem [Values ?xs] (ListAt 0) ?f
          = Some (h', Inr (length [Values ?xs]), log)"
    and r: "results_at h' (length [Values ?xs]) = Some (map Some ys)"
    and l: "length ys = length ?xs"
    and e: "\<forall>i < length ?xs. \<forall>e.
        fst (optimized_example_function sample_mem (?xs ! i) ?f) = Inl e \<longrightarrow>
          \<not> success (ys ! i)
          \<and> error (ys ! i) =
              Some (if exn_ancestor e = Exception
                    then \<lparr>err_type = ''UnexpectedError'',
                          err_message = ''An unexpected error occurred''\<rparr>
                    else \<lparr>err_type = exn_name e, err_message = exn_message e\<rparr>)"
    by (elim exE conjE) (rule that; assumption)
  have i1: "(1::nat) < length ?xs" by simp
  have i2: "(2::nat) < length ?xs" by simp
  have held1: "\<not> success (ys ! 1)
      \<and> error (ys ! 1) =
          Some (if exn_ancestor ?e1 = Exception
                then \<lparr>err_type = ''UnexpectedError'',
                      err_message = ''An unexpected error occurred''\<rparr>
                else \<lparr>err_type = exn_name ?e1, err_message = exn_message ?e1\<rparr>)"
    using e [rule_format, OF i1 t1] .
  have held2: "\<not> success (ys ! 2)
      \<and> error (ys ! 2) =
          Some (if exn_ancestor memory_error = Exception
                then \<lparr>err_type = ''UnexpectedError'',
                      err_message = ''An unexpected error occurred''\<rparr>
                else \<lparr>err_type = exn_name memory_error,
                      err_message = exn_message memory_error\<rparr>)"
    using e [rule_format, OF i2 t2] .
  show ?thesis
  proof (intro conjI exI)
    show "batch_process_values sample_mem [Values ?xs] (NotList tuple_1_2) ?f
        = Some ([Values ?xs], Inl (type_error ''Values must be a list''), [])"
      by (rule first)
    show "values_at [Values ?xs] 0 = Some ?xs"
      using hyp by (rule conjunct1)
    show "py_str (Num (PInt 5)) = Inr (Text (str_int 5))"
      by (rule s1)
    show "py_str list_1_2_3 = Inr (Text ''[1, 2, 3]'')"
      by (rule s2)
    show "py_str (Str ''a'') = Inr (Text ''a'')"
      by (rule s3)
    show "fst (optimized_example_function sample_mem list_1_2_3 ?f) = Inl ?e1"
      using t1 by simp
    show "fst (optimized_example_function sample_mem (Str ''a'') ?f) = Inl memory_error"
      using t2 by simp
    show "batch_process_values sample_mem [Values ?xs] (ListAt 0) ?f = Some (h', Inr 1, log)"
      using b by simp
    show "results_at h' 1 = Some (map Some ys)"
      using r by simp
    show "length ys = 3"
      using l by simp
    show "\<not> success (ys ! 1)"
      using held1 by (rule conjunct1)
    show "error (ys ! 1) =
        Some \<lparr>err_type = ''TypeError'',
              err_message =
                ''Unsupported type: <class 'list'>. Supported types: int, float, str''\<rparr>"
      using held1 by simp
    show "\<not> success (ys ! 2)"
      using held2 by (rule conjunct1)
    show "error (ys ! 2) =
        Some \<lparr>err_type = ''UnexpectedError'',
              err_message = ''An unexpected error occurred''\<rparr>"
      using held2 by simp
  qed
qed

text \<open>
  C9 as stated fails on a sequence that is no list: the tuple \<^verbatim>\<open>(1, 2)\<close> is of a
  sequence type, and the function called on it does not return a list of results but
  raises \<^verbatim>\<open>TypeError\<close>.
\<close>

theorem batch_tuple_counterexample:
  "is_sequence (NotList tuple_1_2)
   \<and> batch_process_values sample_mem [] (NotList tuple_1_2) 2
       = Some ([], Inl (type_error ''Values must be a list''), [])"
  by (simp add: tuple_1_2_def batch_process_values_def)

text \<open>
  C10. A call on the list \<open>xs\<close> at address \<open>a\<close> leaves every list of the heap as it
  was, the argument holding \<open>xs\<close> as before; the list that it returns is at an address
  that was not in use, and has the length of \<open>xs\<close>.
\<close>

theorem batch_frame:
  "values_at h a = Some xs \<Longrightarrow>
   batch_process_values mem h (ListAt a) f = Some (h', out, log) \<Longrightarrow>
     values_at h' a = Some xs
     \<and> (\<forall>b < length h. h' ! b = h ! b)
     \<and> (\<forall>r. out = Inr r \<longrightarrow>
          r = length h \<and> results_at h r = None
          \<and> (\<exists>rs. results_at h' r = Some rs \<and> length rs = length xs))"
proof -
  assume v: "values_at h a = Some xs"
    and b: "batch_process_values mem h (ListAt a) f = Some (h', out, log)"
  obtain rs out0 log0 where o:
    "batch_process_values mem h (ListAt a) f = Some (h @ [Results rs], out0, log0)"
    "length rs = length xs"
    "\<forall>r. out0 = Inr r \<longrightarrow> r = length h"
    using batch_list_outcome [OF v, of mem f] by (elim exE conjE) (rule that; assumption)
  have h': "h' = h @ [Results rs]" and out: "out = out0"
    using b o(1) by simp_all
  have a: "a < length h"
    using v by (simp add: values_at_def split: if_splits)
  have 1: "values_at h' a = Some xs"
    using v a by (simp add: h' values_at_def nth_append)
  have 2: "\<forall>b < length h. h' ! b = h ! b"
    by (simp add: h' nth_append)
  have at: "results_at h' (length h) = Some rs"
    by (simp add: h' results_at_def)
  have none: "results_at h (length h) = None"
    by (simp add: results_at_def)
  have "r = length h" if "out = Inr r" for r
    using that o(3) out by simp
  then have 3: "\<forall>r. out = Inr r \<longrightarrow>
      r = length h \<and> results_at h r = None
      \<and> (\<exists>rs. results_at h' r = Some rs \<and> length rs = length xs)"
    using at none o(2) by auto
  show ?thesis
    using 1 2 3 by (intro conjI)
qed

theorem batch_frame_witness:
  "values_at [Values [Num (PInt 1), NoneVal]] 0 = Some [Num (PInt 1), NoneVal]
   \<and> batch_process_values sample_mem [Values [Num (PInt 1), NoneVal]] (ListAt 0) 2 =
       Some ([Values [Num (PInt 1), NoneVal],
              Results
                [Some \<lparr>success = True, result = Num (PInt 2), error = None,
                        type_info = \<lparr>info_input_type = ''int'',
                                     info_input_value = Text ''1'',
                                     info_multiplier = 2\<rparr>\<rparr>,
                 Some \<lparr>success = False, result = NoneVal,
                        error = Some \<lparr>err_type = ''TypeError'',
                                      err_message = ''Unsupported type: <class 'NoneType'>''
                                        @ ''. Supported types: int, float, str''\<rparr>,
                        type_info = \<lparr>info_input_type = ''NoneType'',
                                     info_input_value = Text ''None'',
                                     info_multiplier = 2\<rparr>\<rparr>]],
             Inr 1, [])
   \<and> values_at
        [Values [Num (PInt 1), NoneVal],
         Results
           [Some \<lparr>success = True, result = Num (PInt 2), error = None,
                   type_info = \<lparr>info_input_type = ''int'',
                                info_input_value = Text ''1'',
                                info_multiplier = 2\<rparr>\<rparr>,
            Some \<lparr>success = False, result = NoneVal,
                   error = Some \<lparr>err_type = ''TypeError'',
                                 err_message = ''Unsupported type: <class 'NoneType'>''
                                   @ ''. Supported types: int, float, str''\<rparr>,
                   type_info = \<lparr>info_input_type = ''NoneType'',
                                info_input_value = Text ''None'',
                                info_multiplier = 2\<rparr>\<rparr>]] 0
       = Some [Num (PInt 1), NoneVal]
   \<and> results_at [Values [Num (PInt 1), NoneVal]] 1 = None"
proof -
  let ?xs = "[Num (PInt 1), NoneVal]"
  have v: "values_at [Values ?xs] 0 = Some ?xs"
    by (simp add: values_at_def)
  have d: "str_int 1 = ''1''"
    by (simp add: str_int_def str_nat.simps) code_simp
  have p: "py_str_int 1 = Inr ''1''"
    using py_str_int_small [of 1] d by simp
  have r1: "safe_example_function sample_mem (Num (PInt 1)) 2 =
      (Inr \<lparr>success = True, result = Num (PInt 2), error = None,
             type_info = \<lparr>info_input_type = ''int'', info_input_value = Text ''1'',
                          info_multiplier = 2\<rparr>\<rparr>, [])"
    by (simp add: safe_example_function_def try_except_def optimized_example_function_def
        process_numeric_value_def times_def as_text_def p)
  have r2: "safe_example_function sample_mem NoneVal 2 =
      (Inr \<lparr>success = False, result = NoneVal,
             error = Some \<lparr>err_type = ''TypeError'',
                           err_message = ''Unsupported type: <class 'NoneType'>''
                             @ ''. Supported types: int, float, str''\<rparr>,
             type_info = \<lparr>info_input_type = ''NoneType'', info_input_value = Text ''None'',
                          info_multiplier = 2\<rparr>\<rparr>, [])"
    by (simp add: safe_example_function_def try_except_def optimized_example_function_def)
  have b: "batch_process_values sample_mem [Values ?xs] (ListAt 0) 2 =
       Some ([Values ?xs,
              Results
                [Some \<lparr>success = True, result = Num (PInt 2), error = None,
                        type_info = \<lparr>info_input_type = ''int'',
                                     info_input_value = Text ''1'',
                                     info_multiplier = 2\<rparr>\<rparr>,
                 Some \<lparr>success = False, result = NoneVal,
                        error = Some \<lparr>err_type = ''TypeError'',
                                      err_message = ''Unsupported type: <class 'NoneType'>''
                                        @ ''. Supported types: int, float, str''\<rparr>,
                        type_info = \<lparr>info_input_type = ''NoneType'',
                                     info_input_value = Text ''None'',
                                     info_multiplier = 2\<rparr>\<rparr>]],
             Inr 1, [])"
    by (simp add: batch_process_values_def values_at_def results_at_def setitem_def r1 r2)
  show ?thesis
    using batch_frame [OF v b] v b by simp
qed

end
